theory Spec2Isabelle
  imports Main "HOL-Library.Word"
begin

section \<open>Resource types of the Agent API (package v1)\<close>

text \<open>
  Go's \<^verbatim>\<open>int32\<close> is a 32-bit word read as two's complement: \<open>*\<close> wraps, comparisons
  are the signed ones (\<open><s\<close>, \<open>\<le>s\<close>). A \<^verbatim>\<open>metav1.Time\<close> is a point on a discrete clock.
  A Go pointer field (\<^verbatim>\<open>*int32\<close>, \<^verbatim>\<open>*LanggraphConfig\<close>, ...) is an \<open>option\<close>: \<open>None\<close> is nil.
  A Go string field has the zero value \<open>''''\<close>, which the code reads as "unset".
\<close>

type_synonym int32 = "32 word"
type_synonym Time = nat

record SecretKeySelector =
  secretName :: string
  secretKey :: string

text \<open>A \<^verbatim>\<open>corev1.ResourceList\<close> maps a resource name to a quantity, kept as its text.\<close>

record ResourceRequirements =
  Requests :: "(string \<times> string) list"
  Limits :: "(string \<times> string) list"

text \<open>
  A \<^verbatim>\<open>runtime.RawExtension\<close> carries raw bytes that are meant to be JSON. JSON is not
  parsed here: an extension is its bytes together with whether they are well-formed,
  which is all that \<^verbatim>\<open>json.Marshal\<close> depends on.
\<close>

datatype RawExtension = RawJSON string | RawMalformed string

record Tool =
  toolName :: string
  toolDescription :: string
  toolInputSchema :: "RawExtension option"

record WorkflowNode =
  nodeName :: string
  nodeType :: string
  nodePrompt :: string
  nodeTool :: string
  nodeAction :: string
  nodeCondition :: string
  nodeInputs :: "string list"
  nodeOutputs :: "string list"

record WorkflowEdge =
  edgeFrom :: string
  edgeTo :: string
  edgeCondition :: string

record LanggraphConfig =
  GraphType :: string
  Nodes :: "WorkflowNode list"
  Edges :: "WorkflowEdge list"
  State :: "RawExtension option"
  Entrypoint :: string
  Endpoints :: "string list"

record AgentSpec =
  Provider :: string
  Model :: string
  SystemPrompt :: string
  ApiSecretRef :: SecretKeySelector
  Endpoint :: string
  Framework :: string
  LanggraphConfig :: "LanggraphConfig option"
  Tools :: "Tool list"
  Replicas :: "int32 option"
  Resources :: "ResourceRequirements option"
  ServiceType :: string

definition AgentConditionReady :: string where "AgentConditionReady = ''Ready''"
definition AgentConditionProgressing :: string where "AgentConditionProgressing = ''Progressing''"
definition AgentConditionDegraded :: string where "AgentConditionDegraded = ''Degraded''"

definition ConditionTrue :: string where "ConditionTrue = ''True''"
definition ConditionFalse :: string where "ConditionFalse = ''False''"
definition ConditionUnknown :: string where "ConditionUnknown = ''Unknown''"

record AgentCondition =
  cType :: string
  cStatus :: string
  cReason :: string
  cMessage :: string
  cLastTransitionTime :: "Time option"

definition AgentPhasePending :: string where "AgentPhasePending = ''Pending''"
definition AgentPhaseRunning :: string where "AgentPhaseRunning = ''Running''"
definition AgentPhaseFailed :: string where "AgentPhaseFailed = ''Failed''"
definition AgentPhaseSucceeded :: string where "AgentPhaseSucceeded = ''Succeeded''"

record ReplicaStatus =
  Ready :: int32
  Desired :: int32
  Available :: int32

record AgentStatus =
  Phase :: string
  Message :: string
  ReplicaStatus :: ReplicaStatus
  LastUpdated :: "Time option"
  Conditions :: "AgentCondition list"

text \<open>
  \<^verbatim>\<open>metav1.ObjectMeta\<close> is embedded in every API object, so \<^verbatim>\<open>agent.Name\<close> reads the
  metadata; the objects below extend this record.
\<close>

record OwnerReference =
  ownerKind :: string
  ownerName :: string
  ownerController :: bool

record ObjectMeta =
  Name :: string
  Namespace :: string
  Labels :: "(string \<times> string) list"
  Annotations :: "(string \<times> string) list"
  Finalizers :: "string list"
  DeletionTimestamp :: "Time option"
  OwnerReferences :: "OwnerReference list"

record Agent = ObjectMeta +
  Spec :: AgentSpec
  Status :: AgentStatus

section \<open>Errors and formatting\<close>

text \<open>
  An \<^verbatim>\<open>error\<close> value is either a status error of the API client (with the reason that
  \<^verbatim>\<open>errors.IsNotFound\<close> inspects), an error made by \<^verbatim>\<open>fmt.Errorf\<close>, the aggregated
  field errors of the webhook, or the panic of a nil dereference.
\<close>

datatype StatusReason = StatusReasonNotFound | StatusReasonAlreadyExists | StatusReasonOther

datatype FieldValue = StringValue string | Int32Value int32

datatype FieldError =
    FieldInvalid string FieldValue string
  | FieldRequired string string

datatype error =
    StatusError StatusReason string
  | Errorf string
  | ValidationFailed "FieldError list"
  | NilPointerDereference

fun IsNotFound :: "error \<Rightarrow> bool" where
  "IsNotFound (StatusError StatusReasonNotFound m) = True"
| "IsNotFound e = False"

text \<open>Decimal rendering, the verb \<^verbatim>\<open>%d\<close>.\<close>

definition digit_char :: "nat \<Rightarrow> char" where
  "digit_char d = char_of (48 + d)"

function fmt_nat :: "nat \<Rightarrow> string" where
  "fmt_nat n = (if n < 10 then [digit_char n] else fmt_nat (n div 10) @ [digit_char (n mod 10)])"
  by pat_completeness auto
termination
  by (relation "measure id") auto

declare fmt_nat.simps [simp del]

definition fmt_d :: "int \<Rightarrow> string" where
  "fmt_d i = (if i < 0 then CHR ''-'' # fmt_nat (nat (- i)) else fmt_nat (nat i))"

text \<open>A string slice under the verb \<^verbatim>\<open>%v\<close>: the elements between brackets, space separated.\<close>

fun join_space :: "string list \<Rightarrow> string" where
  "join_space [] = []"
| "join_space [x] = x"
| "join_space (x # y # ys) = x @ '' '' @ join_space (y # ys)"

definition fmt_v :: "string list \<Rightarrow> string" where
  "fmt_v xs = ''['' @ join_space xs @ '']''"

text \<open>
  The verb \<^verbatim>\<open>%q\<close>: the string between double quotes, with a backslash before a double
  quote and before a backslash, Go's one-letter escapes for the bytes 7 to 13, and a
  backslash, \<open>x\<close> and two lower-case hexadecimal digits for the other control bytes and
  for 0x7f. Bytes above 0x7f are copied: they are taken to encode printable runes.
\<close>

definition hex_digit :: "nat \<Rightarrow> char" where
  "hex_digit d = (if d < 10 then char_of (48 + d) else char_of (87 + d))"

definition quote_char :: "char \<Rightarrow> string" where
  "quote_char c =
    (let n = (of_char c :: nat) in
     if n = 0x22 then [CHR 0x5C, CHR 0x22]
     else if n = 0x5C then [CHR 0x5C, CHR 0x5C]
     else if n = 7 then [CHR 0x5C, CHR ''a'']
     else if n = 8 then [CHR 0x5C, CHR ''b'']
     else if n = 9 then [CHR 0x5C, CHR ''t'']
     else if n = 10 then [CHR 0x5C, CHR ''n'']
     else if n = 11 then [CHR 0x5C, CHR ''v'']
     else if n = 12 then [CHR 0x5C, CHR ''f'']
     else if n = 13 then [CHR 0x5C, CHR ''r'']
     else if n < 32 \<or> n = 127
     then [CHR 0x5C, CHR ''x'', hex_digit (n div 16), hex_digit (n mod 16)]
     else [c])"

definition fmt_q :: "string \<Rightarrow> string" where
  "fmt_q s = [CHR 0x22] @ concat (map quote_char s) @ [CHR 0x22]"

fun fmt_FieldValue :: "FieldValue \<Rightarrow> string" where
  "fmt_FieldValue (StringValue s) = fmt_q s"
| "fmt_FieldValue (Int32Value i) = fmt_d (sint i)"

fun fmt_FieldError :: "FieldError \<Rightarrow> string" where
  "fmt_FieldError (FieldInvalid path v detail) =
     path @ '': Invalid value: '' @ fmt_FieldValue v @ '': '' @ detail"
| "fmt_FieldError (FieldRequired path detail) = path @ '': Required value: '' @ detail"

text \<open>A word between single quotes, as the messages of the validators write it.\<close>

definition sq :: "string \<Rightarrow> string" where
  "sq s = [CHR 0x27] @ s @ [CHR 0x27]"

text \<open>\<^verbatim>\<open>err.Error()\<close>, which the verb \<^verbatim>\<open>%v\<close> prints for an error.\<close>

fun error_string :: "error \<Rightarrow> string" where
  "error_string (StatusError r m) = m"
| "error_string (Errorf m) = m"
| "error_string (ValidationFailed errs) = ''validation failed: '' @ fmt_v (map fmt_FieldError errs)"
| "error_string NilPointerDereference =
     ''runtime error: invalid memory address or nil pointer dereference''"

section \<open>Admission webhook (Default, validateAgent)\<close>

definition defaultResources :: ResourceRequirements where
  "defaultResources =
     \<lparr>Requests = [(''memory'', ''256Mi''), (''cpu'', ''100m'')],
      Limits = [(''memory'', ''512Mi''), (''cpu'', ''200m'')]\<rparr>"

text \<open>
  \<^verbatim>\<open>Default\<close> mutates the receiver in four consecutive \<^verbatim>\<open>if\<close> statements; the model
  threads the spec through them in the same order.
\<close>

definition Default :: "Agent \<Rightarrow> Agent" where
  "Default r =
    (let s0 = Spec r;
         s1 = (if Framework s0 = '''' then s0\<lparr>Framework := ''direct''\<rparr> else s0);
         s2 = (if Replicas s1 = None then s1\<lparr>Replicas := Some 1\<rparr> else s1);
         s3 = (if ServiceType s2 = '''' then s2\<lparr>ServiceType := ''ClusterIP''\<rparr> else s2);
         s4 = (if Resources s3 = None then s3\<lparr>Resources := Some defaultResources\<rparr> else s3)
     in r\<lparr>Spec := s4\<rparr>)"

text \<open>
  The \<^verbatim>\<open>for ... range\<close> loops of the validators search a fixed slice for the field's
  value and stop at the first hit.
\<close>

fun contains_string :: "string list \<Rightarrow> string \<Rightarrow> bool" where
  "contains_string [] s = False"
| "contains_string (x # xs) s = (if s = x then True else contains_string xs s)"

definition validProviders :: "string list" where
  "validProviders = [''openai'', ''gemini'', ''claude'', ''vllm'']"

definition validServiceTypes :: "string list" where
  "validServiceTypes = [''ClusterIP'', ''NodePort'', ''LoadBalancer'']"

text \<open>The list \<^verbatim>\<open>allErrs\<close>, appended to check by check.\<close>

definition validateAgent_allErrs :: "Agent \<Rightarrow> FieldError list" where
  "validateAgent_allErrs r =
    (let s = Spec r in
     (if \<not> contains_string validProviders (Provider s)
      then [FieldInvalid ''spec.provider'' (StringValue (Provider s))
              (''must be one of '' @ fmt_v validProviders)]
      else []) @
     (if Model s = '''' then [FieldRequired ''spec.model'' ''model is required''] else []) @
     (if SystemPrompt s = ''''
      then [FieldRequired ''spec.systemPrompt'' ''systemPrompt is required''] else []) @
     (if secretName (ApiSecretRef s) = ''''
      then [FieldRequired ''spec.apiSecretRef.name'' ''apiSecretRef.name is required''] else []) @
     (if secretKey (ApiSecretRef s) = ''''
      then [FieldRequired ''spec.apiSecretRef.key'' ''apiSecretRef.key is required''] else []) @
     (if Framework s \<noteq> '''' \<and> Framework s \<noteq> ''direct'' \<and> Framework s \<noteq> ''langgraph''
      then [FieldInvalid ''spec.framework'' (StringValue (Framework s))
              (''must be '' @ sq ''direct'' @ '' or '' @ sq ''langgraph'')]
      else []) @
     (if Framework s = ''langgraph'' \<and> LanggraphConfig s = None
      then [FieldRequired ''spec.langgraphConfig''
              (''langgraphConfig is required when framework is '' @ sq ''langgraph'')]
      else []) @
     (case Replicas s of
        None \<Rightarrow> []
      | Some n \<Rightarrow>
          if n <s 1 \<or> 10 <s n
          then [FieldInvalid ''spec.replicas'' (Int32Value n) ''must be between 1 and 10'']
          else []) @
     (if ServiceType s \<noteq> '''' \<and> \<not> contains_string validServiceTypes (ServiceType s)
      then [FieldInvalid ''spec.serviceType'' (StringValue (ServiceType s))
              (''must be one of '' @ fmt_v validServiceTypes)]
      else []))"

definition validateAgent :: "Agent \<Rightarrow> error + unit" where
  "validateAgent r =
    (let allErrs = validateAgent_allErrs r
     in if length allErrs = 0 then Inr () else Inl (ValidationFailed allErrs))"

section \<open>Reconciler: validation of the configuration\<close>

definition validateConfiguration :: "Agent \<Rightarrow> error + unit" where
  "validateConfiguration agent =
    (let s = Spec agent in
     if \<not> contains_string validProviders (Provider s)
     then Inl (Errorf (''invalid provider: '' @ Provider s @ '', must be one of ''
                        @ fmt_v validProviders))
     else if Framework s \<noteq> '''' \<and> Framework s \<noteq> ''direct'' \<and> Framework s \<noteq> ''langgraph''
     then Inl (Errorf (''invalid framework: '' @ Framework s
                        @ '', must be '' @ sq ''direct'' @ '' or '' @ sq ''langgraph''))
     else if Framework s = ''langgraph'' \<and> LanggraphConfig s = None
     then Inl (Errorf (''langgraphConfig is required when framework is '' @ sq ''langgraph''))
     else (case Replicas s of
             None \<Rightarrow> Inr ()
           | Some n \<Rightarrow>
               if n <s 1 \<or> 10 <s n
               then Inl (Errorf (''replicas must be between 1 and 10, got '' @ fmt_d (sint n)))
               else Inr ()))"

section \<open>Status engine: conditions\<close>

text \<open>
  \<^verbatim>\<open>updateCondition\<close> walks the slice; at the first condition of the new condition's type
  it stores the new condition there (with the old transition time when the status is the
  same) and returns; when the loop ends without a hit it appends.
\<close>

fun updateCondition :: "AgentCondition list \<Rightarrow> AgentCondition \<Rightarrow> AgentCondition list" where
  "updateCondition [] newCondition = [newCondition]"
| "updateCondition (condition # conditions) newCondition =
    (if cType condition = cType newCondition
     then (if cStatus condition = cStatus newCondition
           then newCondition\<lparr>cLastTransitionTime := cLastTransitionTime condition\<rparr>
           else newCondition) # conditions
     else condition # updateCondition conditions newCondition)"

section \<open>Owned children: HorizontalPodAutoscaler\<close>

record CrossVersionObjectReference =
  refAPIVersion :: string
  refKind :: string
  refName :: string

record MetricTarget =
  targetType :: string
  AverageUtilization :: "int32 option"

record ResourceMetricSource =
  resourceName :: string
  Target :: MetricTarget

record MetricSpec =
  metricType :: string
  Resource :: "ResourceMetricSource option"

record HorizontalPodAutoscalerSpec =
  ScaleTargetRef :: CrossVersionObjectReference
  MinReplicas :: "int32 option"
  MaxReplicas :: int32
  Metrics :: "MetricSpec list"

record HorizontalPodAutoscaler = ObjectMeta +
  hpaSpec :: HorizontalPodAutoscalerSpec

definition ResourceMetricSourceType :: string where "ResourceMetricSourceType = ''Resource''"
definition UtilizationMetricType :: string where "UtilizationMetricType = ''Utilization''"

text \<open>The three labels every builder of the enhanced reconciler puts on its object.\<close>

definition agentLabels :: "Agent \<Rightarrow> (string \<times> string) list" where
  "agentLabels agent =
     [(''app.kubernetes.io/name'', ''kubeagentic-agent''),
      (''app.kubernetes.io/instance'', Name agent),
      (''kubeagentic.ai/agent'', Name agent)]"

definition int32Ptr :: "int32 \<Rightarrow> int32 option" where
  "int32Ptr i = Some i"

definition buildHPA :: "Agent \<Rightarrow> HorizontalPodAutoscaler" where
  "buildHPA agent =
    (let labels = agentLabels agent;
         (minReplicas, maxReplicas) =
            (case Replicas (Spec agent) of
               None \<Rightarrow> (1, 10)
             | Some n \<Rightarrow> (n, n * 3))
     in \<lparr>Name = Name agent @ ''-hpa'',
         Namespace = Namespace agent,
         Labels = labels,
         Annotations = [],
         Finalizers = [],
         DeletionTimestamp = None,
         OwnerReferences = [],
         hpaSpec =
           \<lparr>ScaleTargetRef =
              \<lparr>refAPIVersion = ''apps/v1'', refKind = ''Deployment'', refName = Name agent\<rparr>,
            MinReplicas = Some minReplicas,
            MaxReplicas = maxReplicas,
            Metrics =
              [\<lparr>metricType = ResourceMetricSourceType,
                Resource = Some \<lparr>resourceName = ''cpu'',
                                 Target = \<lparr>targetType = UtilizationMetricType,
                                           AverageUtilization = int32Ptr 70\<rparr>\<rparr>\<rparr>,
               \<lparr>metricType = ResourceMetricSourceType,
                Resource = Some \<lparr>resourceName = ''memory'',
                                 Target = \<lparr>targetType = UtilizationMetricType,
                                           AverageUtilization = int32Ptr 80\<rparr>\<rparr>\<rparr>]\<rparr>\<rparr>)"

section \<open>Owned children: ConfigMap, Deployment, Service, Ingress; the Secret\<close>

text \<open>
  \<^verbatim>\<open>json.Marshal\<close> is not interpreted: a value that the code serialises is carried as
  the payload "the JSON encoding of this value". The call returns an error exactly when
  a \<^verbatim>\<open>RawExtension\<close> inside the value is malformed (the other fields are strings and
  slices of strings, which always encode); \<open>None\<close> is that error, which comes with the
  nil slice of bytes.
\<close>

datatype Payload =
    Text string
  | ToolsJSON "Tool list"
  | LanggraphConfigJSON LanggraphConfig

fun encodes :: "RawExtension option \<Rightarrow> bool" where
  "encodes (Some (RawMalformed b)) = False"
| "encodes r = True"

definition json_Marshal_Tools :: "Tool list \<Rightarrow> Payload option" where
  "json_Marshal_Tools tools =
     (if list_all (\<lambda>t. encodes (toolInputSchema t)) tools then Some (ToolsJSON tools) else None)"

definition json_Marshal_LanggraphConfig :: "LanggraphConfig \<Rightarrow> Payload option" where
  "json_Marshal_LanggraphConfig c =
     (if encodes (State c) then Some (LanggraphConfigJSON c) else None)"

text \<open>\<^verbatim>\<open>string(b)\<close> on the bytes \<^verbatim>\<open>json.Marshal\<close> returned: the empty string for the nil slice.\<close>

definition bytes_string :: "Payload option \<Rightarrow> Payload" where
  "bytes_string b = (case b of None \<Rightarrow> Text [] | Some p \<Rightarrow> p)"

record Secret = ObjectMeta +
  secretData :: "(string \<times> string) list"

record ConfigMap = ObjectMeta +
  configMapData :: "(string \<times> Payload) list"

record EnvVar =
  envName :: string
  envValue :: Payload
  envSecretKeyRef :: "SecretKeySelector option"

record Probe =
  httpGetPath :: string
  httpGetPort :: int32
  InitialDelaySeconds :: int32
  PeriodSeconds :: int32

record Container =
  containerName :: string
  Image :: string
  ContainerPorts :: "(int32 \<times> string) list"
  Env :: "EnvVar list"
  containerResources :: ResourceRequirements
  LivenessProbe :: "Probe option"
  ReadinessProbe :: "Probe option"

record PodTemplateSpec =
  templateLabels :: "(string \<times> string) list"
  Containers :: "Container list"

record DeploymentSpec =
  deploymentReplicas :: "int32 option"
  Selector :: "(string \<times> string) list"
  Template :: PodTemplateSpec

record DeploymentStatus =
  statusReplicas :: int32
  ReadyReplicas :: int32
  AvailableReplicas :: int32

record Deployment = ObjectMeta +
  deploymentSpec :: DeploymentSpec
  deploymentStatus :: DeploymentStatus

record ServicePort =
  Port :: int32
  TargetPort :: int32
  Protocol :: string

record ServiceSpec =
  serviceSpecType :: string
  serviceSelector :: "(string \<times> string) list"
  servicePorts :: "ServicePort list"

record Service = ObjectMeta +
  serviceSpec :: ServiceSpec

record HTTPIngressPath =
  Path :: string
  PathType :: string
  backendServiceName :: string
  backendServicePort :: int32

record IngressRule =
  Host :: string
  Paths :: "HTTPIngressPath list"

record IngressSpec =
  Rules :: "IngressRule list"

record Ingress = ObjectMeta +
  ingressSpec :: IngressSpec

section \<open>Builders of the enhanced reconciler\<close>

definition buildConfigMap :: "Agent \<Rightarrow> ConfigMap" where
  "buildConfigMap agent =
    (let labels = agentLabels agent;
         data0 = [];
         data1 = (if length (Tools (Spec agent)) > 0
                  then data0 @ [(''tools.json'',
                                 bytes_string (json_Marshal_Tools (Tools (Spec agent))))]
                  else data0);
         data2 = (case LanggraphConfig (Spec agent) of
                    None \<Rightarrow> data1
                  | Some c \<Rightarrow>
                      data1 @ [(''langgraph-config.json'',
                                bytes_string (json_Marshal_LanggraphConfig c))])
     in \<lparr>Name = Name agent @ ''-config'', Namespace = Namespace agent, Labels = labels,
         Annotations = [], Finalizers = [], DeletionTimestamp = None, OwnerReferences = [],
         configMapData = data2\<rparr>)"

definition livenessProbe :: Probe where
  "livenessProbe = \<lparr>httpGetPath = ''/health'', httpGetPort = 8080,
                     InitialDelaySeconds = 30, PeriodSeconds = 10\<rparr>"

definition readinessProbe :: Probe where
  "readinessProbe = \<lparr>httpGetPath = ''/ready'', httpGetPort = 8080,
                      InitialDelaySeconds = 5, PeriodSeconds = 5\<rparr>"

definition plainEnv :: "string \<Rightarrow> string \<Rightarrow> EnvVar" where
  "plainEnv n v = \<lparr>envName = n, envValue = Text v, envSecretKeyRef = None\<rparr>"

definition buildDeployment :: "Agent \<Rightarrow> Deployment" where
  "buildDeployment agent =
    (let s = Spec agent;
         replicas = (case Replicas s of None \<Rightarrow> 1 | Some n \<Rightarrow> n);
         resources = (case Resources s of None \<Rightarrow> defaultResources | Some r \<Rightarrow> r);
         env0 = [plainEnv ''AGENT_PROVIDER'' (Provider s),
                 plainEnv ''AGENT_MODEL'' (Model s),
                 plainEnv ''AGENT_SYSTEM_PROMPT'' (SystemPrompt s),
                 \<lparr>envName = ''AGENT_API_KEY'', envValue = Text [],
                  envSecretKeyRef = Some (ApiSecretRef s)\<rparr>];
         env1 = (if Endpoint s \<noteq> [] then env0 @ [plainEnv ''AGENT_ENDPOINT'' (Endpoint s)]
                 else env0);
         framework = (if Framework s \<noteq> [] then Framework s else ''direct'');
         env2 = env1 @ [plainEnv ''AGENT_FRAMEWORK'' framework];
         env3 = (case LanggraphConfig s of
                   None \<Rightarrow> env2
                 | Some c \<Rightarrow>
                     if framework = ''langgraph''
                     then (case json_Marshal_LanggraphConfig c of
                             Some configBytes \<Rightarrow>
                               env2 @ [\<lparr>envName = ''AGENT_LANGGRAPH_CONFIG'',
                                        envValue = configBytes, envSecretKeyRef = None\<rparr>]
                           | None \<Rightarrow> env2)
                     else env2);
         env4 = (if length (Tools s) > 0
                 then env3 @ [plainEnv ''AGENT_TOOLS_COUNT'' (fmt_d (int (length (Tools s))))]
                 else env3);
         labels = agentLabels agent
     in \<lparr>Name = Name agent, Namespace = Namespace agent, Labels = labels,
         Annotations = [], Finalizers = [], DeletionTimestamp = None, OwnerReferences = [],
         deploymentSpec =
           \<lparr>deploymentReplicas = Some replicas,
            Selector = labels,
            Template =
              \<lparr>templateLabels = labels,
               Containers =
                 [\<lparr>containerName = ''agent'',
                   Image = ''sudeshmu/kubeagentic:agent-fixed'',
                   ContainerPorts = [(8080, ''TCP'')],
                   Env = env4,
                   containerResources = resources,
                   LivenessProbe = Some livenessProbe,
                   ReadinessProbe = Some readinessProbe\<rparr>]\<rparr>\<rparr>,
         deploymentStatus = \<lparr>statusReplicas = 0, ReadyReplicas = 0, AvailableReplicas = 0\<rparr>\<rparr>)"

definition buildService :: "Agent \<Rightarrow> Service" where
  "buildService agent =
    (let serviceType = (if ServiceType (Spec agent) \<noteq> [] then ServiceType (Spec agent)
                        else ''ClusterIP'');
         labels = agentLabels agent
     in \<lparr>Name = Name agent @ ''-service'', Namespace = Namespace agent, Labels = labels,
         Annotations = [], Finalizers = [], DeletionTimestamp = None, OwnerReferences = [],
         serviceSpec =
           \<lparr>serviceSpecType = serviceType,
            serviceSelector = labels,
            servicePorts = [\<lparr>Port = 80, TargetPort = 8080, Protocol = ''TCP''\<rparr>]\<rparr>\<rparr>)"

definition buildIngress :: "Agent \<Rightarrow> Ingress" where
  "buildIngress agent =
    (let labels = agentLabels agent;
         hostname = Name agent @ ''.'' @ Namespace agent @ ''.local'';
         pathType = ''Prefix''
     in \<lparr>Name = Name agent @ ''-ingress'', Namespace = Namespace agent, Labels = labels,
         Annotations = [(''nginx.ingress.kubernetes.io/rewrite-target'', ''/''),
                        (''nginx.ingress.kubernetes.io/ssl-redirect'', ''false'')],
         Finalizers = [], DeletionTimestamp = None, OwnerReferences = [],
         ingressSpec =
           \<lparr>Rules = [\<lparr>Host = hostname,
                      Paths = [\<lparr>Path = ''/'', PathType = pathType,
                                backendServiceName = Name agent @ ''-service'',
                                backendServicePort = 80\<rparr>]\<rparr>]\<rparr>\<rparr>)"

section \<open>The cluster as seen through the API client\<close>

text \<open>
  The reconcilers talk to the API server through \<^verbatim>\<open>client.Client\<close>, which is not code of
  this repository. Its behaviour is fixed here as follows.
  \<^item> The cluster is one store per kind, keyed by \<^verbatim>\<open>types.NamespacedName\<close>.
  \<^item> Every call is appended to \<open>calls\<close>, whether it succeeds or not.
  \<^item> The server may refuse any call: \<open>faults w n\<close>, when it is \<open>Some e\<close>, makes the call
    number \<open>n\<close> return \<open>e\<close> and change nothing (conflict, timeout, unavailability).
    The theorems quantify over \<open>faults\<close>.
  \<^item> Otherwise \<^verbatim>\<open>Get\<close> answers from the store (not-found when absent), \<^verbatim>\<open>Create\<close>
    adds an absent object (already-exists otherwise), \<^verbatim>\<open>Update\<close> and \<^verbatim>\<open>Delete\<close> act on
    a present object (not-found otherwise).
  \<^item> The Agent kind has the status subresource (marker
    \<^verbatim>\<open>+kubebuilder:subresource:status\<close>): \<^verbatim>\<open>Update\<close> writes metadata and spec and keeps
    the stored status, \<^verbatim>\<open>Status().Update\<close> writes the status only.
  \<^item> Removal of an object whose last finalizer is gone is the work of the server's
    garbage collector and is not part of a pass.
  \<^verbatim>\<open>time.Now()\<close> reads \<open>clock\<close>.
\<close>

type_synonym NamespacedName = "string \<times> string"

datatype Kind = KAgent | KSecret | KConfigMap | KDeployment | KService | KHPA | KIngress

datatype Object =
    AgentObj Agent
  | ConfigMapObj ConfigMap
  | DeploymentObj Deployment
  | ServiceObj Service
  | HPAObj HorizontalPodAutoscaler
  | IngressObj Ingress

datatype Call =
    Get Kind NamespacedName
  | Create Object
  | Update Object
  | Delete Object
  | StatusUpdate Agent

record World =
  agents :: "NamespacedName \<rightharpoonup> Agent"
  secrets :: "NamespacedName \<rightharpoonup> Secret"
  configmaps :: "NamespacedName \<rightharpoonup> ConfigMap"
  deployments :: "NamespacedName \<rightharpoonup> Deployment"
  services :: "NamespacedName \<rightharpoonup> Service"
  hpas :: "NamespacedName \<rightharpoonup> HorizontalPodAutoscaler"
  ingresses :: "NamespacedName \<rightharpoonup> Ingress"
  faults :: "nat \<Rightarrow> error option"
  calls :: "Call list"
  clock :: Time

definition record_call :: "Call \<Rightarrow> World \<Rightarrow> World" where
  "record_call c w = w\<lparr>calls := calls w @ [c]\<rparr>"

definition next_fault :: "World \<Rightarrow> error option" where
  "next_fault w = faults w (length (calls w))"

definition key_of :: "'a ObjectMeta_scheme \<Rightarrow> NamespacedName" where
  "key_of obj = (Namespace obj, Name obj)"

fun objectKind :: "Object \<Rightarrow> Kind" where
  "objectKind (AgentObj a) = KAgent"
| "objectKind (ConfigMapObj c) = KConfigMap"
| "objectKind (DeploymentObj d) = KDeployment"
| "objectKind (ServiceObj s) = KService"
| "objectKind (HPAObj h) = KHPA"
| "objectKind (IngressObj i) = KIngress"

text \<open>
  The errors of the server name the resource (with its API group, when it has one) and
  quote the name of the object: \<^verbatim>\<open>secrets "s" not found\<close>.
\<close>

fun resourceOf :: "Kind \<Rightarrow> string" where
  "resourceOf KAgent = ''agents.ai.example.com''"
| "resourceOf KSecret = ''secrets''"
| "resourceOf KConfigMap = ''configmaps''"
| "resourceOf KDeployment = ''deployments.apps''"
| "resourceOf KService = ''services''"
| "resourceOf KHPA = ''horizontalpodautoscalers.autoscaling''"
| "resourceOf KIngress = ''ingresses.networking.k8s.io''"

definition notFound :: "Kind \<Rightarrow> NamespacedName \<Rightarrow> error" where
  "notFound kind k =
     StatusError StatusReasonNotFound (resourceOf kind @ '' '' @ fmt_q (snd k) @ '' not found'')"

definition alreadyExists :: "Kind \<Rightarrow> NamespacedName \<Rightarrow> error" where
  "alreadyExists kind k =
     StatusError StatusReasonAlreadyExists
       (resourceOf kind @ '' '' @ fmt_q (snd k) @ '' already exists'')"

definition client_Get ::
  "(World \<Rightarrow> NamespacedName \<rightharpoonup> 'a) \<Rightarrow> Kind \<Rightarrow> World \<Rightarrow> NamespacedName
     \<Rightarrow> (error + 'a) \<times> World" where
  "client_Get store kind w k =
    (let w1 = record_call (Get kind k) w in
     case next_fault w of
       Some e \<Rightarrow> (Inl e, w1)
     | None \<Rightarrow>
         (case store w k of
            None \<Rightarrow> (Inl (notFound kind k), w1)
          | Some obj \<Rightarrow> (Inr obj, w1)))"

definition client_Create ::
  "(World \<Rightarrow> NamespacedName \<rightharpoonup> 'a ObjectMeta_scheme)
     \<Rightarrow> ((((NamespacedName \<rightharpoonup> 'a ObjectMeta_scheme)) \<Rightarrow> (NamespacedName \<rightharpoonup> 'a ObjectMeta_scheme))
            \<Rightarrow> World \<Rightarrow> World)
     \<Rightarrow> ('a ObjectMeta_scheme \<Rightarrow> Object) \<Rightarrow> World \<Rightarrow> 'a ObjectMeta_scheme
     \<Rightarrow> (error + unit) \<times> World" where
  "client_Create store put wrap w obj =
    (let w1 = record_call (Create (wrap obj)) w in
     case next_fault w of
       Some e \<Rightarrow> (Inl e, w1)
     | None \<Rightarrow>
         (case store w (key_of obj) of
            Some old \<Rightarrow> (Inl (alreadyExists (objectKind (wrap obj)) (key_of obj)), w1)
          | None \<Rightarrow> (Inr (), put (\<lambda>m. m(key_of obj \<mapsto> obj)) w1)))"

definition client_Update ::
  "(World \<Rightarrow> NamespacedName \<rightharpoonup> 'a ObjectMeta_scheme)
     \<Rightarrow> ((((NamespacedName \<rightharpoonup> 'a ObjectMeta_scheme)) \<Rightarrow> (NamespacedName \<rightharpoonup> 'a ObjectMeta_scheme))
            \<Rightarrow> World \<Rightarrow> World)
     \<Rightarrow> ('a ObjectMeta_scheme \<Rightarrow> Object) \<Rightarrow> World \<Rightarrow> 'a ObjectMeta_scheme
     \<Rightarrow> (error + unit) \<times> World" where
  "client_Update store put wrap w obj =
    (let w1 = record_call (Update (wrap obj)) w in
     case next_fault w of
       Some e \<Rightarrow> (Inl e, w1)
     | None \<Rightarrow>
         (case store w (key_of obj) of
            None \<Rightarrow> (Inl (notFound (objectKind (wrap obj)) (key_of obj)), w1)
          | Some old \<Rightarrow> (Inr (), put (\<lambda>m. m(key_of obj \<mapsto> obj)) w1)))"

definition client_Delete ::
  "(World \<Rightarrow> NamespacedName \<rightharpoonup> 'a ObjectMeta_scheme)
     \<Rightarrow> ((((NamespacedName \<rightharpoonup> 'a ObjectMeta_scheme)) \<Rightarrow> (NamespacedName \<rightharpoonup> 'a ObjectMeta_scheme))
            \<Rightarrow> World \<Rightarrow> World)
     \<Rightarrow> ('a ObjectMeta_scheme \<Rightarrow> Object) \<Rightarrow> World \<Rightarrow> 'a ObjectMeta_scheme
     \<Rightarrow> (error + unit) \<times> World" where
  "client_Delete store put wrap w obj =
    (let w1 = record_call (Delete (wrap obj)) w in
     case next_fault w of
       Some e \<Rightarrow> (Inl e, w1)
     | None \<Rightarrow>
         (case store w (key_of obj) of
            None \<Rightarrow> (Inl (notFound (objectKind (wrap obj)) (key_of obj)), w1)
          | Some old \<Rightarrow> (Inr (), put (\<lambda>m. m(key_of obj := None)) w1)))"

text \<open>
  \<^verbatim>\<open>r.Update(ctx, &agent)\<close>: on success the object in memory becomes the stored one, that
  is the metadata and spec just written with the status the server holds.
\<close>

definition client_Update_Agent :: "World \<Rightarrow> Agent \<Rightarrow> (error + Agent) \<times> World" where
  "client_Update_Agent w agent =
    (let w1 = record_call (Update (AgentObj agent)) w in
     case next_fault w of
       Some e \<Rightarrow> (Inl e, w1)
     | None \<Rightarrow>
         (case agents w (key_of agent) of
            None \<Rightarrow> (Inl (notFound KAgent (key_of agent)), w1)
          | Some old \<Rightarrow>
              (let stored = agent\<lparr>Status := Status old\<rparr>
               in (Inr stored, w1\<lparr>agents := (agents w1)(key_of agent \<mapsto> stored)\<rparr>))))"

text \<open>
  \<^verbatim>\<open>r.Status().Update(ctx, agent)\<close>: only the status of the stored Agent changes; the
  object in memory keeps what it holds.
\<close>

definition client_Status_Update :: "World \<Rightarrow> Agent \<Rightarrow> (error + unit) \<times> World" where
  "client_Status_Update w agent =
    (let w1 = record_call (StatusUpdate agent) w in
     case next_fault w of
       Some e \<Rightarrow> (Inl e, w1)
     | None \<Rightarrow>
         (case agents w (key_of agent) of
            None \<Rightarrow> (Inl (notFound KAgent (key_of agent)), w1)
          | Some old \<Rightarrow>
              (Inr (), w1\<lparr>agents := (agents w1)(key_of agent \<mapsto> old\<lparr>Status := Status agent\<rparr>)\<rparr>)))"

subsection \<open>controllerutil\<close>

definition ContainsFinalizer :: "'a ObjectMeta_scheme \<Rightarrow> string \<Rightarrow> bool" where
  "ContainsFinalizer obj f = contains_string (Finalizers obj) f"

definition AddFinalizer :: "'a ObjectMeta_scheme \<Rightarrow> string \<Rightarrow> 'a ObjectMeta_scheme" where
  "AddFinalizer obj f =
     (if contains_string (Finalizers obj) f then obj
      else obj\<lparr>Finalizers := Finalizers obj @ [f]\<rparr>)"

definition RemoveFinalizer :: "'a ObjectMeta_scheme \<Rightarrow> string \<Rightarrow> 'a ObjectMeta_scheme" where
  "RemoveFinalizer obj f = obj\<lparr>Finalizers := filter (\<lambda>x. x \<noteq> f) (Finalizers obj)\<rparr>"

definition controllerRef :: "Agent \<Rightarrow> OwnerReference" where
  "controllerRef owner = \<lparr>ownerKind = ''Agent'', ownerName = Name owner, ownerController = True\<rparr>"

text \<open>
  \<^verbatim>\<open>SetControllerReference\<close> refuses an object that another controller owns, and
  otherwise makes the Agent the one controller reference of the object.
\<close>

definition SetControllerReference ::
  "Agent \<Rightarrow> 'a ObjectMeta_scheme \<Rightarrow> error + 'a ObjectMeta_scheme" where
  "SetControllerReference owner obj =
     (if list_ex (\<lambda>r. ownerController r \<and> r \<noteq> controllerRef owner) (OwnerReferences obj)
      then Inl (Errorf ''Object is already owned by another controller'')
      else Inr (obj\<lparr>OwnerReferences :=
                      filter (\<lambda>r. r \<noteq> controllerRef owner) (OwnerReferences obj)
                        @ [controllerRef owner]\<rparr>))"

text \<open>\<^verbatim>\<open>ctrl.Result\<close>, with the delay in seconds.\<close>

record Result =
  Requeue :: bool
  RequeueAfter :: nat

definition Minute :: nat where "Minute = 60"

definition finalizerName :: string where
  "finalizerName = ''kubeagentic.ai/finalizer''"

section \<open>The reconciler (AgentReconciler)\<close>

text \<open>
  A method that talks to the cluster takes the world and returns its result with the new
  world. A \<^verbatim>\<open>NamespacedName\<close> is written (namespace, name).
  \<open>and_then\<close> is the idiom \<^verbatim>\<open>if err != nil { return ctrl.Result{}, err }\<close>: an error ends
  the pass and is handed to the work queue.
\<close>

definition and_then ::
  "(error + 'a) \<times> World \<Rightarrow> ('a \<Rightarrow> World \<Rightarrow> (error + 'b) \<times> World) \<Rightarrow> (error + 'b) \<times> World" where
  "and_then m f = (case m of (Inl err, w) \<Rightarrow> (Inl err, w) | (Inr x, w) \<Rightarrow> f x w)"

definition validateSecretRef :: "World \<Rightarrow> Agent \<Rightarrow> (error + unit) \<times> World" where
  "validateSecretRef w agent =
    (let ref = ApiSecretRef (Spec agent) in
     case client_Get secrets KSecret w (Namespace agent, secretName ref) of
       (Inl err, w1) \<Rightarrow>
         (Inl (Errorf (''failed to get secret '' @ secretName ref @ '': '' @ error_string err)), w1)
     | (Inr secret, w1) \<Rightarrow>
         (case map_of (secretData secret) (secretKey ref) of
            None \<Rightarrow>
              (Inl (Errorf (''key '' @ secretKey ref @ '' not found in secret '' @ secretName ref)),
               w1)
          | Some v \<Rightarrow> (Inr (), w1)))"

definition reconcileConfigMap :: "World \<Rightarrow> Agent \<Rightarrow> (error + unit) \<times> World" where
  "reconcileConfigMap w agent =
    (case SetControllerReference agent (buildConfigMap agent) of
       Inl err \<Rightarrow> (Inl err, w)
     | Inr configMap \<Rightarrow>
         (case client_Get configmaps KConfigMap w (Namespace configMap, Name configMap) of
            (Inl err, w1) \<Rightarrow>
              if IsNotFound err
              then client_Create configmaps configmaps_update ConfigMapObj w1 configMap
              else (Inl err, w1)
          | (Inr found, w1) \<Rightarrow>
              client_Update configmaps configmaps_update ConfigMapObj w1
                (found\<lparr>configMapData := configMapData configMap\<rparr>)))"

definition reconcileDeployment :: "World \<Rightarrow> Agent \<Rightarrow> (error + unit) \<times> World" where
  "reconcileDeployment w agent =
    (case SetControllerReference agent (buildDeployment agent) of
       Inl err \<Rightarrow> (Inl err, w)
     | Inr deployment \<Rightarrow>
         (case client_Get deployments KDeployment w (Namespace deployment, Name deployment) of
            (Inl err, w1) \<Rightarrow>
              if IsNotFound err
              then client_Create deployments deployments_update DeploymentObj w1 deployment
              else (Inl err, w1)
          | (Inr found, w1) \<Rightarrow>
              client_Update deployments deployments_update DeploymentObj w1
                (found\<lparr>deploymentSpec := deploymentSpec deployment\<rparr>)))"

definition reconcileService :: "World \<Rightarrow> Agent \<Rightarrow> (error + unit) \<times> World" where
  "reconcileService w agent =
    (case SetControllerReference agent (buildService agent) of
       Inl err \<Rightarrow> (Inl err, w)
     | Inr service \<Rightarrow>
         (case client_Get services KService w (Namespace service, Name service) of
            (Inl err, w1) \<Rightarrow>
              if IsNotFound err
              then client_Create services services_update ServiceObj w1 service
              else (Inl err, w1)
          | (Inr foundService, w1) \<Rightarrow>
              client_Update services services_update ServiceObj w1
                (foundService\<lparr>serviceSpec := (serviceSpec foundService)
                   \<lparr>servicePorts := servicePorts (serviceSpec service),
                    serviceSelector := serviceSelector (serviceSpec service),
                    serviceSpecType := serviceSpecType (serviceSpec service)\<rparr>\<rparr>)))"

text \<open>
  \<^verbatim>\<open>reconcileHPA\<close>: the first branch is taken when \<^verbatim>\<open>Replicas != nil && *Replicas == 1\<close>; in it
  every error of the lookup, not only not-found, ends the method with \<^verbatim>\<open>nil\<close>.
\<close>

definition reconcileHPA :: "World \<Rightarrow> Agent \<Rightarrow> (error + unit) \<times> World" where
  "reconcileHPA w agent =
    (if (case Replicas (Spec agent) of None \<Rightarrow> False | Some n \<Rightarrow> n = 1)
     then (case client_Get hpas KHPA w (Namespace agent, Name agent @ ''-hpa'') of
             (Inr hpa, w1) \<Rightarrow> client_Delete hpas hpas_update HPAObj w1 hpa
           | (Inl err, w1) \<Rightarrow> (Inr (), w1))
     else (case SetControllerReference agent (buildHPA agent) of
             Inl err \<Rightarrow> (Inl err, w)
           | Inr hpa \<Rightarrow>
               (case client_Get hpas KHPA w (Namespace hpa, Name hpa) of
                  (Inl err, w1) \<Rightarrow>
                    if IsNotFound err
                    then client_Create hpas hpas_update HPAObj w1 hpa
                    else (Inl err, w1)
                | (Inr found, w1) \<Rightarrow>
                    client_Update hpas hpas_update HPAObj w1 (found\<lparr>hpaSpec := hpaSpec hpa\<rparr>))))"

definition reconcileIngress :: "World \<Rightarrow> Agent \<Rightarrow> (error + unit) \<times> World" where
  "reconcileIngress w agent =
    (if ServiceType (Spec agent) \<noteq> ''LoadBalancer''
     then (case client_Get ingresses KIngress w (Namespace agent, Name agent @ ''-ingress'') of
             (Inr ingress, w1) \<Rightarrow> client_Delete ingresses ingresses_update IngressObj w1 ingress
           | (Inl err, w1) \<Rightarrow> (Inr (), w1))
     else (case SetControllerReference agent (buildIngress agent) of
             Inl err \<Rightarrow> (Inl err, w)
           | Inr ingress \<Rightarrow>
               (case client_Get ingresses KIngress w (Namespace ingress, Name ingress) of
                  (Inl err, w1) \<Rightarrow>
                    if IsNotFound err
                    then client_Create ingresses ingresses_update IngressObj w1 ingress
                    else (Inl err, w1)
                | (Inr found, w1) \<Rightarrow>
                    client_Update ingresses ingresses_update IngressObj w1
                      (found\<lparr>ingressSpec := ingressSpec ingress\<rparr>))))"

subsection \<open>Status engine\<close>

text \<open>
  \<^verbatim>\<open>updateAgentStatus\<close> reads the Deployment, changes the status of the Agent in memory
  and writes it. \<open>statusFromDeployment\<close> is the Agent it writes: the statements of the
  method between the read and the write, for the Deployment read and the value of
  \<^verbatim>\<open>*deployment.Spec.Replicas\<close>. On a nil pointer the dereference panics, which the model
  returns as an error.
\<close>

definition statusFromDeployment :: "Time \<Rightarrow> Agent \<Rightarrow> Deployment \<Rightarrow> int32 \<Rightarrow> Agent" where
  "statusFromDeployment now agent deployment specReplicas =
    (let st = deploymentStatus deployment;
         status0 = (Status agent)\<lparr>ReplicaStatus :=
                      \<lparr>Ready = ReadyReplicas st, Desired = specReplicas,
                       Available = AvailableReplicas st\<rparr>\<rparr>;
         status1 =
           (if ReadyReplicas st = specReplicas \<and> 0 <s ReadyReplicas st
            then status0\<lparr>Phase := AgentPhaseRunning,
                         Message := ''Agent is running and ready''\<rparr>
            else if statusReplicas st = 0
            then status0\<lparr>Phase := AgentPhasePending,
                         Message := ''Agent deployment is scaling up''\<rparr>
            else status0\<lparr>Phase := AgentPhasePending,
                         Message := ''Agent deployment in progress (''
                           @ fmt_d (sint (ReadyReplicas st)) @ ''/''
                           @ fmt_d (sint specReplicas) @ '' ready)''\<rparr>);
         status2 = status1\<lparr>LastUpdated := Some now\<rparr>;
         readyCondition =
           (if Phase status2 = AgentPhaseRunning
            then \<lparr>cType = AgentConditionReady, cStatus = ConditionTrue,
                  cReason = ''DeploymentReady'', cMessage = ''All replicas are ready'',
                  cLastTransitionTime = Some now\<rparr>
            else \<lparr>cType = AgentConditionReady, cStatus = ConditionFalse,
                  cReason = ''DeploymentNotReady'',
                  cMessage = ''Deployment is not yet ready'',
                  cLastTransitionTime = Some now\<rparr>)
     in agent\<lparr>Status := status2\<lparr>Conditions :=
                  updateCondition (Conditions status2) readyCondition\<rparr>\<rparr>)"

definition updateAgentStatus :: "World \<Rightarrow> Agent \<Rightarrow> (error + unit) \<times> World" where
  "updateAgentStatus w agent =
    (case client_Get deployments KDeployment w (Namespace agent, Name agent) of
       (Inl err, w1) \<Rightarrow>
         (Inl (Errorf (''failed to get deployment for status update: '' @ error_string err)), w1)
     | (Inr deployment, w1) \<Rightarrow>
         (case deploymentReplicas (deploymentSpec deployment) of
            None \<Rightarrow> (Inl NilPointerDereference, w1)
          | Some specReplicas \<Rightarrow>
              client_Status_Update w1
                (statusFromDeployment (clock w1) agent deployment specReplicas)))"

text \<open>
  \<^verbatim>\<open>updateStatusFailed\<close> changes the status of the Agent in memory (\<open>failedAgent\<close> is the
  result), writes it, logs an error of the write and drops it; it always returns a
  requeue after two minutes and no error.
\<close>

definition failedAgent :: "Time \<Rightarrow> Agent \<Rightarrow> string \<Rightarrow> Agent" where
  "failedAgent now agent message =
    (let status1 = (Status agent)\<lparr>Phase := AgentPhaseFailed, Message := message,
                                  LastUpdated := Some now\<rparr>;
         degradedCondition =
           \<lparr>cType = AgentConditionDegraded, cStatus = ConditionTrue,
            cReason = ''ReconciliationFailed'', cMessage = message,
            cLastTransitionTime = Some now\<rparr>
     in agent\<lparr>Status := status1\<lparr>Conditions :=
                  updateCondition (Conditions status1) degradedCondition\<rparr>\<rparr>)"

definition updateStatusFailed :: "World \<Rightarrow> Agent \<Rightarrow> string \<Rightarrow> (error + Result) \<times> World" where
  "updateStatusFailed w agent message =
    (case client_Status_Update w (failedAgent (clock w) agent message) of
       (res, w1) \<Rightarrow> (Inr \<lparr>Requeue = False, RequeueAfter = Minute * 2\<rparr>, w1))"

text \<open>
  \<^verbatim>\<open>cleanupResources\<close> changes the status of the Agent in memory (\<open>deletingAgent\<close> is the
  result), sends it with the result of the call dropped, and returns \<^verbatim>\<open>nil\<close>.
\<close>

definition deletingAgent :: "Time \<Rightarrow> Agent \<Rightarrow> Agent" where
  "deletingAgent now agent =
     agent\<lparr>Status := (Status agent)
              \<lparr>Phase := AgentPhaseFailed, Message := ''Agent is being deleted'',
               LastUpdated := Some now\<rparr>\<rparr>"

definition cleanupResources :: "World \<Rightarrow> Agent \<Rightarrow> (error + Agent) \<times> World" where
  "cleanupResources w agent =
    (let agent1 = deletingAgent (clock w) agent
     in case client_Status_Update w agent1 of (res, w1) \<Rightarrow> (Inr agent1, w1))"

subsection \<open>Reconcile\<close>

text \<open>
  \<open>or_failed\<close> is the idiom of the child steps of \<^verbatim>\<open>Reconcile\<close>:
  \<^verbatim>\<open>if err := step; err != nil { return r.updateStatusFailed(ctx, &agent, fmt.Sprintf("...: %v", err)) }\<close>.
\<close>

definition or_failed ::
  "Agent \<Rightarrow> string \<Rightarrow> (error + unit) \<times> World \<Rightarrow> (World \<Rightarrow> (error + Result) \<times> World)
     \<Rightarrow> (error + Result) \<times> World" where
  "or_failed agent what m k =
     (case m of
        (Inl err, w) \<Rightarrow> updateStatusFailed w agent (what @ error_string err)
      | (Inr u, w) \<Rightarrow> k w)"

text \<open>
  The block "Initialize status", which every \<^verbatim>\<open>Reconcile\<close> of the repository has with its
  own seed message: when the phase is empty it writes the seed status and goes on, or
  returns the error of the write.
\<close>

definition initializeStatus :: "string \<Rightarrow> Agent \<Rightarrow> World \<Rightarrow> (error + Agent) \<times> World" where
  "initializeStatus message agent w =
    (if Phase (Status agent) = []
     then (let agent1 = agent\<lparr>Status := (Status agent)
                           \<lparr>Phase := AgentPhasePending, Message := message,
                            LastUpdated := Some (clock w)\<rparr>\<rparr>
           in and_then (client_Status_Update w agent1) (\<lambda>u w1. (Inr agent1, w1)))
     else (Inr agent, w))"

text \<open>
  The statements of \<^verbatim>\<open>Reconcile\<close> from "Validate configuration" to the end: validation,
  credential check, the five children in order, the status refresh, the periodic requeue.
\<close>

definition reconcileChildren :: "Agent \<Rightarrow> World \<Rightarrow> (error + Result) \<times> World" where
  "reconcileChildren agent w =
    (case validateConfiguration agent of
       Inl err \<Rightarrow>
         updateStatusFailed w agent (''Configuration validation failed: '' @ error_string err)
     | Inr u \<Rightarrow>
         or_failed agent ''Secret validation failed: '' (validateSecretRef w agent) (\<lambda>w.
         or_failed agent ''Failed to reconcile ConfigMap: '' (reconcileConfigMap w agent) (\<lambda>w.
         or_failed agent ''Failed to reconcile Deployment: '' (reconcileDeployment w agent) (\<lambda>w.
         or_failed agent ''Failed to reconcile Service: '' (reconcileService w agent) (\<lambda>w.
         or_failed agent ''Failed to reconcile HPA: '' (reconcileHPA w agent) (\<lambda>w.
         or_failed agent ''Failed to reconcile Ingress: '' (reconcileIngress w agent) (\<lambda>w.
         and_then (updateAgentStatus w agent) (\<lambda>u w.
         (Inr \<lparr>Requeue = False, RequeueAfter = Minute * 5\<rparr>, w)))))))))"

text \<open>The statements of \<^verbatim>\<open>Reconcile\<close> that follow the finalizer block on an Agent that is
  not being deleted.\<close>

definition reconcileActive :: "Agent \<Rightarrow> World \<Rightarrow> (error + Result) \<times> World" where
  "reconcileActive agent w =
     and_then (initializeStatus ''Initializing agent deployment'' agent w) reconcileChildren"

definition Reconcile :: "World \<Rightarrow> NamespacedName \<Rightarrow> (error + Result) \<times> World" where
  "Reconcile w req =
    (case client_Get agents KAgent w req of
       (Inl err, w1) \<Rightarrow>
         if IsNotFound err then (Inr \<lparr>Requeue = False, RequeueAfter = 0\<rparr>, w1) else (Inl err, w1)
     | (Inr agent, w1) \<Rightarrow>
         (case DeletionTimestamp agent of
            None \<Rightarrow>
              and_then
                (if \<not> ContainsFinalizer agent finalizerName
                 then client_Update_Agent w1 (AddFinalizer agent finalizerName)
                 else (Inr agent, w1))
                reconcileActive
          | Some t \<Rightarrow>
              if ContainsFinalizer agent finalizerName
              then and_then (cleanupResources w1 agent) (\<lambda>agent w2.
                   and_then (client_Update_Agent w2 (RemoveFinalizer agent finalizerName))
                     (\<lambda>agent w3. (Inr \<lparr>Requeue = False, RequeueAfter = 0\<rparr>, w3)))
              else (Inr \<lparr>Requeue = False, RequeueAfter = 0\<rparr>, w1)))"

subsection \<open>The first version of Reconcile\<close>

text \<open>
  The repository holds a second \<^verbatim>\<open>AgentReconciler.Reconcile\<close>, in the file that defines
  the status engine: no finalizer, no validation of the configuration, and only the
  Deployment and the Service as children.
\<close>

definition basic_Reconcile :: "World \<Rightarrow> NamespacedName \<Rightarrow> (error + Result) \<times> World" where
  "basic_Reconcile w req =
    (case client_Get agents KAgent w req of
       (Inl err, w1) \<Rightarrow>
         if IsNotFound err then (Inr \<lparr>Requeue = False, RequeueAfter = 0\<rparr>, w1) else (Inl err, w1)
     | (Inr agent, w1) \<Rightarrow>
         and_then (initializeStatus ''Initializing agent deployment'' agent w1) (\<lambda>agent w.
         or_failed agent ''Secret validation failed: '' (validateSecretRef w agent) (\<lambda>w.
         or_failed agent ''Failed to reconcile Deployment: '' (reconcileDeployment w agent) (\<lambda>w.
         or_failed agent ''Failed to reconcile Service: '' (reconcileService w agent) (\<lambda>w.
         and_then (updateAgentStatus w agent) (\<lambda>u w.
         (Inr \<lparr>Requeue = False, RequeueAfter = Minute * 5\<rparr>, w)))))))"

section \<open>The simple reconciler (SimpleAgentReconciler)\<close>

definition stringOrDefault :: "string \<Rightarrow> string \<Rightarrow> string" where
  "stringOrDefault v defaultValue = (if v = [] then defaultValue else v)"

definition simpleLabels :: "Agent \<Rightarrow> (string \<times> string) list" where
  "simpleLabels agent = [(''app'', Name agent), (''kubeagentic.ai/agent'', Name agent)]"

definition simpleDeployment :: "Agent \<Rightarrow> Deployment" where
  "simpleDeployment agent =
    (let s = Spec agent;
         replicas = (case Replicas s of None \<Rightarrow> 1 | Some n \<Rightarrow> n)
     in \<lparr>Name = Name agent, Namespace = Namespace agent, Labels = simpleLabels agent,
         Annotations = [], Finalizers = [], DeletionTimestamp = None, OwnerReferences = [],
         deploymentSpec =
           \<lparr>deploymentReplicas = Some replicas,
            Selector = [(''app'', Name agent)],
            Template =
              \<lparr>templateLabels = simpleLabels agent,
               Containers =
                 [\<lparr>containerName = ''agent'',
                   Image = ''kubeagentic/agent:latest'',
                   ContainerPorts = [(8080, ''TCP'')],
                   Env = [plainEnv ''AGENT_PROVIDER'' (Provider s),
                          plainEnv ''AGENT_MODEL'' (Model s),
                          plainEnv ''AGENT_SYSTEM_PROMPT'' (SystemPrompt s),
                          plainEnv ''AGENT_FRAMEWORK'' (stringOrDefault (Framework s) ''direct''),
                          \<lparr>envName = ''AGENT_API_KEY'', envValue = Text [],
                           envSecretKeyRef = Some (ApiSecretRef s)\<rparr>],
                   containerResources = defaultResources,
                   LivenessProbe = Some livenessProbe,
                   ReadinessProbe = Some readinessProbe\<rparr>]\<rparr>\<rparr>,
         deploymentStatus = \<lparr>statusReplicas = 0, ReadyReplicas = 0, AvailableReplicas = 0\<rparr>\<rparr>)"

definition createDeployment :: "World \<Rightarrow> Agent \<Rightarrow> (error + unit) \<times> World" where
  "createDeployment w agent =
    (case SetControllerReference agent (simpleDeployment agent) of
       Inl err \<Rightarrow> (Inl err, w)
     | Inr deployment \<Rightarrow>
         (case client_Get deployments KDeployment w (Namespace deployment, Name deployment) of
            (Inl err, w1) \<Rightarrow>
              if IsNotFound err
              then client_Create deployments deployments_update DeploymentObj w1 deployment
              else (Inl err, w1)
          | (Inr found, w1) \<Rightarrow>
              client_Update deployments deployments_update DeploymentObj w1
                (found\<lparr>deploymentSpec := deploymentSpec deployment\<rparr>)))"

definition simpleService :: "Agent \<Rightarrow> Service" where
  "simpleService agent =
     \<lparr>Name = Name agent @ ''-service'', Namespace = Namespace agent,
      Labels = simpleLabels agent,
      Annotations = [], Finalizers = [], DeletionTimestamp = None, OwnerReferences = [],
      serviceSpec =
        \<lparr>serviceSpecType = ''ClusterIP'',
         serviceSelector = [(''app'', Name agent)],
         servicePorts = [\<lparr>Port = 80, TargetPort = 8080, Protocol = ''TCP''\<rparr>]\<rparr>\<rparr>"

definition createService :: "World \<Rightarrow> Agent \<Rightarrow> (error + unit) \<times> World" where
  "createService w agent =
    (case SetControllerReference agent (simpleService agent) of
       Inl err \<Rightarrow> (Inl err, w)
     | Inr service \<Rightarrow>
         (case client_Get services KService w (Namespace service, Name service) of
            (Inl err, w1) \<Rightarrow>
              if IsNotFound err
              then client_Create services services_update ServiceObj w1 service
              else (Inl err, w1)
          | (Inr found, w1) \<Rightarrow>
              client_Update services services_update ServiceObj w1
                (found\<lparr>serviceSpec := serviceSpec service\<rparr>)))"

definition simple_updateStatusFailed :: "World \<Rightarrow> Agent \<Rightarrow> string \<Rightarrow> Result \<times> World" where
  "simple_updateStatusFailed w agent message =
    (let agent1 = agent\<lparr>Status := (Status agent)
                     \<lparr>Phase := AgentPhaseFailed, Message := message,
                      LastUpdated := Some (clock w)\<rparr>\<rparr>
     in case client_Status_Update w agent1 of
          (res, w1) \<Rightarrow> (\<lparr>Requeue = False, RequeueAfter = Minute * 2\<rparr>, w1))"

text \<open>
  Steps 5 to 7 of the simple \<^verbatim>\<open>Reconcile\<close>: Deployment, Service, then phase Running.
  \<open>simpleRunningAgent\<close> is the Agent in memory after the three assignments of step 7.
\<close>

definition simpleRunningAgent :: "Time \<Rightarrow> Agent \<Rightarrow> Agent" where
  "simpleRunningAgent now agent =
     agent\<lparr>Status := (Status agent)
              \<lparr>Phase := AgentPhaseRunning, Message := ''Agent is running'',
               LastUpdated := Some now\<rparr>\<rparr>"

definition simple_createAndRun :: "Agent \<Rightarrow> World \<Rightarrow> (error + Result) \<times> World" where
  "simple_createAndRun agent w =
    (case createDeployment w agent of
       (Inl err, w1) \<Rightarrow>
         (case simple_updateStatusFailed w1 agent (error_string err) of (res, w2) \<Rightarrow> (Inr res, w2))
     | (Inr u, w1) \<Rightarrow>
         (case createService w1 agent of
            (Inl err, w2) \<Rightarrow>
              (case simple_updateStatusFailed w2 agent (error_string err) of
                 (res, w3) \<Rightarrow> (Inr res, w3))
          | (Inr u, w2) \<Rightarrow>
              and_then (client_Status_Update w2 (simpleRunningAgent (clock w2) agent)) (\<lambda>u w3.
                (Inr \<lparr>Requeue = False, RequeueAfter = Minute * 5\<rparr>, w3))))"

definition simple_Reconcile :: "World \<Rightarrow> NamespacedName \<Rightarrow> (error + Result) \<times> World" where
  "simple_Reconcile w req =
    (case client_Get agents KAgent w req of
       (Inl err, w1) \<Rightarrow>
         if IsNotFound err then (Inr \<lparr>Requeue = False, RequeueAfter = 0\<rparr>, w1) else (Inl err, w1)
     | (Inr agent, w1) \<Rightarrow>
         and_then
           (if \<not> ContainsFinalizer agent finalizerName
            then client_Update_Agent w1 (AddFinalizer agent finalizerName)
            else (Inr agent, w1))
           (\<lambda>agent w2.
              case DeletionTimestamp agent of
                Some t \<Rightarrow>
                  and_then (client_Update_Agent w2 (RemoveFinalizer agent finalizerName))
                    (\<lambda>agent w3. (Inr \<lparr>Requeue = False, RequeueAfter = 0\<rparr>, w3))
              | None \<Rightarrow>
                  and_then (initializeStatus ''Creating agent resources'' agent w2)
                    simple_createAndRun))"

section \<open>Observing a pass\<close>

text \<open>
  What a pass did is read off the world it returns: the calls it appended to the log and
  the stores. The definitions of this section belong to the statements of the theorems,
  not to the program.
\<close>

definition newCalls :: "World \<Rightarrow> World \<Rightarrow> Call list" where
  "newCalls w w' = drop (length (calls w)) (calls w')"

datatype Verb = VGet | VCreate | VUpdate | VDelete | VStatusUpdate

fun callShape :: "Call \<Rightarrow> Verb \<times> Kind" where
  "callShape (Get k n) = (VGet, k)"
| "callShape (Create obj) = (VCreate, objectKind obj)"
| "callShape (Update obj) = (VUpdate, objectKind obj)"
| "callShape (Delete obj) = (VDelete, objectKind obj)"
| "callShape (StatusUpdate a) = (VStatusUpdate, KAgent)"

text \<open>The invariant of the status: phase Running only with all desired replicas ready.\<close>

definition runningInvariant :: "AgentStatus \<Rightarrow> bool" where
  "runningInvariant st =
     (if Phase st = AgentPhaseRunning
      then Ready (ReplicaStatus st) = Desired (ReplicaStatus st) \<and> 0 <s Desired (ReplicaStatus st)
      else True)"

fun statusWriteOk :: "Call \<Rightarrow> bool" where
  "statusWriteOk (StatusUpdate a) = runningInvariant (Status a)"
| "statusWriteOk c = True"

text \<open>
  The calls of the convergence part of a pass: reads, writes of children, and status
  writes that respect the invariant; never a write of the Agent's metadata or spec.
\<close>

fun convergeCall :: "Call \<Rightarrow> bool" where
  "convergeCall (Get k n) = True"
| "convergeCall (Create obj) = (objectKind obj \<noteq> KAgent)"
| "convergeCall (Update obj) = (objectKind obj \<noteq> KAgent)"
| "convergeCall (Delete obj) = (objectKind obj \<noteq> KAgent)"
| "convergeCall (StatusUpdate a) = runningInvariant (Status a)"

fun isAgentUpdate :: "Call \<Rightarrow> bool" where
  "isAgentUpdate (Update (AgentObj a)) = True"
| "isAgentUpdate c = False"

text \<open>An update of the Agent that carries the finalizer.\<close>

fun writesFinalizer :: "Call \<Rightarrow> bool" where
  "writesFinalizer (Update (AgentObj a)) = ContainsFinalizer a finalizerName"
| "writesFinalizer c = False"

fun isCreate :: "Call \<Rightarrow> bool" where
  "isCreate (Create obj) = True"
| "isCreate c = False"

fun isDelete :: "Call \<Rightarrow> bool" where
  "isDelete (Delete obj) = True"
| "isDelete c = False"

text \<open>
  \<open>issues P w w'\<close>: the world \<open>w'\<close> comes from \<open>w\<close> by calls that all satisfy \<open>P\<close>; the
  fault plan and the clock are those of \<open>w\<close>.
\<close>

definition issues :: "(Call \<Rightarrow> bool) \<Rightarrow> World \<Rightarrow> World \<Rightarrow> bool" where
  "issues P w w' =
     (faults w' = faults w \<and> clock w' = clock w \<and>
      take (length (calls w)) (calls w') = calls w \<and>
      list_all P (newCalls w w'))"

definition noFaults :: "World \<Rightarrow> bool" where
  "noFaults w = (\<forall>n. faults w n = None)"

text \<open>The object a store holds under a key, if any, carries that key as its name.\<close>

definition storedUnder :: "(NamespacedName \<rightharpoonup> 'a ObjectMeta_scheme) \<Rightarrow> NamespacedName \<Rightarrow> bool" where
  "storedUnder store k = (case store k of None \<Rightarrow> True | Some obj \<Rightarrow> key_of obj = k)"

definition hpaKey :: "Agent \<Rightarrow> NamespacedName" where
  "hpaKey agent = (Namespace agent, Name agent @ ''-hpa'')"

definition ingressKey :: "Agent \<Rightarrow> NamespacedName" where
  "ingressKey agent = (Namespace agent, Name agent @ ''-ingress'')"

text \<open>\<open>untouched w w'\<close>: the two conditional stores and the fault plan are those of \<open>w\<close>.\<close>

definition untouched :: "World \<Rightarrow> World \<Rightarrow> bool" where
  "untouched w w' = (hpas w' = hpas w \<and> ingresses w' = ingresses w \<and> faults w' = faults w)"

text \<open>The objects \<^verbatim>\<open>reconcileHPA\<close> and \<^verbatim>\<open>reconcileIngress\<close> create: the builder's output with
  the Agent as its controller.\<close>

definition ownedHPA :: "Agent \<Rightarrow> HorizontalPodAutoscaler" where
  "ownedHPA agent = (buildHPA agent)\<lparr>OwnerReferences := [controllerRef agent]\<rparr>"

definition ownedIngress :: "Agent \<Rightarrow> Ingress" where
  "ownedIngress agent = (buildIngress agent)\<lparr>OwnerReferences := [controllerRef agent]\<rparr>"

text \<open>The server answers the next two calls from its store.\<close>

definition twoAnswers :: "World \<Rightarrow> bool" where
  "twoAnswers w = (next_fault w = None \<and> faults w (Suc (length (calls w))) = None)"

section \<open>Concrete inputs\<close>

text \<open>
  A minimal valid Agent as a user would submit it (scenario "create basic agent"), the
  Secret it refers to, and a cluster that holds just these two and refuses no call.
\<close>

definition exampleAgent :: Agent where
  "exampleAgent =
     \<lparr>Name = ''a'', Namespace = ''ns'', Labels = [], Annotations = [], Finalizers = [],
      DeletionTimestamp = None, OwnerReferences = [],
      Spec = \<lparr>Provider = ''openai'', Model = ''gpt-4'', SystemPrompt = ''hi'',
              ApiSecretRef = \<lparr>secretName = ''s'', secretKey = ''k''\<rparr>,
              Endpoint = [], Framework = ''direct'', LanggraphConfig = None, Tools = [],
              Replicas = Some 1, Resources = None, ServiceType = ''ClusterIP''\<rparr>,
      Status = \<lparr>Phase = [], Message = [],
                ReplicaStatus = \<lparr>Ready = 0, Desired = 0, Available = 0\<rparr>,
                LastUpdated = None, Conditions = []\<rparr>\<rparr>"

definition withProvider :: "string \<Rightarrow> Agent \<Rightarrow> Agent" where
  "withProvider p agent = agent\<lparr>Spec := (Spec agent)\<lparr>Provider := p\<rparr>\<rparr>"

definition withReplicas :: "int32 option \<Rightarrow> Agent \<Rightarrow> Agent" where
  "withReplicas n agent = agent\<lparr>Spec := (Spec agent)\<lparr>Replicas := n\<rparr>\<rparr>"

definition exampleSecret :: Secret where
  "exampleSecret =
     \<lparr>Name = ''s'', Namespace = ''ns'', Labels = [], Annotations = [], Finalizers = [],
      DeletionTimestamp = None, OwnerReferences = [], secretData = [(''k'', ''v'')]\<rparr>"

definition exampleWorld :: "Agent \<Rightarrow> World" where
  "exampleWorld agent =
     \<lparr>agents = [(''ns'', ''a'') \<mapsto> agent], secrets = [(''ns'', ''s'') \<mapsto> exampleSecret],
      configmaps = Map.empty, deployments = Map.empty, services = Map.empty,
      hpas = Map.empty, ingresses = Map.empty,
      faults = (\<lambda>n. None), calls = [], clock = 7\<rparr>"

definition exampleConditions :: "AgentCondition list" where
  "exampleConditions =
     [\<lparr>cType = ''Ready'', cStatus = ''False'', cReason = ''DeploymentNotReady'',
       cMessage = ''Deployment is not yet ready'', cLastTransitionTime = Some 3\<rparr>]"

definition exampleNotReady :: AgentCondition where
  "exampleNotReady =
     \<lparr>cType = ''Ready'', cStatus = ''False'', cReason = ''DeploymentNotReady'',
      cMessage = ''Deployment is not yet ready'', cLastTransitionTime = Some 9\<rparr>"

text \<open>
  A healthy Agent in deletion: it carries the finalizer, its deletion timestamp is set,
  and its status is Running with its one replica ready.
\<close>

definition runningAgent :: Agent where
  "runningAgent = exampleAgent
     \<lparr>Finalizers := [finalizerName], DeletionTimestamp := Some 5,
      Status := \<lparr>Phase = ''Running'', Message = ''Agent is running and ready'',
                ReplicaStatus = \<lparr>Ready = 1, Desired = 1, Available = 1\<rparr>,
                LastUpdated = Some 4, Conditions = []\<rparr>\<rparr>"

text \<open>The cluster of \<open>exampleWorld\<close> with the Agent's Deployment present and ready.\<close>

definition readyDeployment :: Deployment where
  "readyDeployment = (buildDeployment exampleAgent)
     \<lparr>deploymentStatus := \<lparr>statusReplicas = 1, ReadyReplicas = 1, AvailableReplicas = 1\<rparr>\<rparr>"

definition convergedWorld :: World where
  "convergedWorld =
     (exampleWorld exampleAgent)\<lparr>deployments := [(''ns'', ''a'') \<mapsto> readyDeployment]\<rparr>"

text \<open>
  Scenario "missing secret": an Agent that carries the finalizer and whose status is
  seeded, in a cluster that does not hold the Secret it refers to.
\<close>

definition pendingAgent :: Agent where
  "pendingAgent = exampleAgent
     \<lparr>Finalizers := [finalizerName],
      Status := \<lparr>Phase = ''Pending'', Message = ''Initializing agent deployment'',
                ReplicaStatus = \<lparr>Ready = 0, Desired = 0, Available = 0\<rparr>,
                LastUpdated = Some 4, Conditions = []\<rparr>\<rparr>"

definition worldWithoutSecret :: World where
  "worldWithoutSecret = (exampleWorld pendingAgent)\<lparr>secrets := Map.empty\<rparr>"

text \<open>An Agent in deletion that another controller's finalizer still holds.\<close>

definition heldAgent :: Agent where
  "heldAgent = exampleAgent\<lparr>Finalizers := [''other/finalizer''], DeletionTimestamp := Some 5\<rparr>"

text \<open>
  The cluster of \<open>exampleWorld\<close> for an Agent that was scaled down: its spec now asks for
  one replica and a ClusterIP service, and the cluster still holds the HPA and the
  Ingress that earlier passes created for it, when it had three replicas and a
  LoadBalancer service.
\<close>

definition staleHPA :: HorizontalPodAutoscaler where
  "staleHPA = ownedHPA (withReplicas (Some 3) exampleAgent)"

definition staleIngress :: Ingress where
  "staleIngress = ownedIngress exampleAgent"

definition scaledDownWorld :: World where
  "scaledDownWorld =
     (exampleWorld exampleAgent)
       \<lparr>hpas := [(''ns'', ''a-hpa'') \<mapsto> staleHPA],
        ingresses := [(''ns'', ''a-ingress'') \<mapsto> staleIngress]\<rparr>"

text \<open>
  A server that fails to answer the calls number 10 and 11, which in a pass on
  \<open>scaledDownWorld\<close> are the lookup of the HPA and the lookup of the Ingress.
\<close>

definition lookupsRefused :: "nat \<Rightarrow> error option" where
  "lookupsRefused n =
     (if n = 10 \<or> n = 11
      then Some (StatusError StatusReasonOther ''etcdserver: request timed out'')
      else None)"

definition withFaults :: "(nat \<Rightarrow> error option) \<Rightarrow> World \<Rightarrow> World" where
  "withFaults f w = w\<lparr>faults := f\<rparr>"

section \<open>Properties of the admission webhook and of the configuration check\<close>

lemma contains_string_set: "contains_string xs s = (s \<in> set xs)"
  by (induction xs) auto

lemma openai_valid: "contains_string validProviders ''openai''"
  by (simp add: validProviders_def)

lemma validateAgent_allErrs_provider:
  "validateAgent_allErrs r =
     (if \<not> contains_string validProviders (Provider (Spec r))
      then [FieldInvalid ''spec.provider'' (StringValue (Provider (Spec r)))
              (''must be one of '' @ fmt_v validProviders)]
      else []) @ validateAgent_allErrs (withProvider ''openai'' r)"
  using openai_valid
  by (simp add: validateAgent_allErrs_def withProvider_def Let_def
        split del: if_split cong del: if_weak_cong)

text \<open>
  When the other fields of an Agent are valid (the Agent is admitted once its provider
  is replaced by an accepted one), \<^verbatim>\<open>validateAgent\<close> admits it exactly for the four
  providers of \<open>validProviders\<close> and otherwise rejects it with one field error that names
  the value and the accepted set.
\<close>

lemma validateAgent_provider:
  assumes "validateAgent (withProvider ''openai'' r) = Inr ()"
  shows "validateAgent r =
     (if Provider (Spec r) \<in> {''openai'', ''gemini'', ''claude'', ''vllm''} then Inr ()
      else Inl (ValidationFailed
                  [FieldInvalid ''spec.provider'' (StringValue (Provider (Spec r)))
                     ''must be one of [openai gemini claude vllm]'']))"
proof -
  from assms have "validateAgent_allErrs (withProvider ''openai'' r) = []"
    by (simp add: validateAgent_def Let_def split: if_splits)
  then have "validateAgent_allErrs r =
      (if \<not> contains_string validProviders (Provider (Spec r))
       then [FieldInvalid ''spec.provider'' (StringValue (Provider (Spec r)))
               (''must be one of '' @ fmt_v validProviders)]
       else [])"
    by (subst validateAgent_allErrs_provider) simp
  then show ?thesis
    by (simp add: validateAgent_def contains_string_set validProviders_def fmt_v_def)
qed

lemma validateConfiguration_valid_provider:
  "contains_string validProviders (Provider (Spec r)) \<Longrightarrow>
   validateConfiguration r = validateConfiguration (withProvider ''openai'' r)"
  using openai_valid
  by (simp add: validateConfiguration_def withProvider_def Let_def
        split del: if_split cong del: if_weak_cong)

text \<open>The reconciler's check accepts and rejects the same provider set.\<close>

lemma validateConfiguration_provider:
  assumes "validateConfiguration (withProvider ''openai'' r) = Inr ()"
  shows "validateConfiguration r =
     (if Provider (Spec r) \<in> {''openai'', ''gemini'', ''claude'', ''vllm''} then Inr ()
      else Inl (Errorf (''invalid provider: '' @ Provider (Spec r)
                         @ '', must be one of [openai gemini claude vllm]'')))"
proof (cases "contains_string validProviders (Provider (Spec r))")
  case True
  then show ?thesis
    using assms validateConfiguration_valid_provider [of r]
    by (simp add: contains_string_set validProviders_def)
next
  case False
  then show ?thesis
    by (simp add: validateConfiguration_def contains_string_set validProviders_def fmt_v_def)
qed

text \<open>
  Claim C1, as amended. For every Agent whose other fields are valid (the Agent passes
  the check once its provider is replaced by an accepted one), the admission validator
  admits it when \<open>spec.provider\<close> is one of the four values \<open>openai\<close>, \<open>gemini\<close>, \<open>claude\<close>,
  \<open>vllm\<close>, and otherwise rejects it with the single field error on \<open>spec.provider\<close> that
  carries the value and the accepted set; the reconciler's \<^verbatim>\<open>validateConfiguration\<close>
  accepts and rejects the same set, with an error that names the value and the set.
\<close>

theorem provider_admitted_iff_one_of_four:
  "(validateAgent (withProvider ''openai'' r) = Inr () \<longrightarrow>
      validateAgent r =
        (if Provider (Spec r) \<in> {''openai'', ''gemini'', ''claude'', ''vllm''} then Inr ()
         else Inl (ValidationFailed
                     [FieldInvalid ''spec.provider'' (StringValue (Provider (Spec r)))
                        ''must be one of [openai gemini claude vllm]''])))
   \<and> (validateConfiguration (withProvider ''openai'' r) = Inr () \<longrightarrow>
      validateConfiguration r =
        (if Provider (Spec r) \<in> {''openai'', ''gemini'', ''claude'', ''vllm''} then Inr ()
         else Inl (Errorf (''invalid provider: '' @ Provider (Spec r)
                            @ '', must be one of [openai gemini claude vllm]''))))"
  using validateAgent_provider [of r] validateConfiguration_provider [of r] by blast

theorem provider_admitted_iff_one_of_four_witness:
  "validateAgent (withProvider ''openai'' (withProvider ''vllm'' exampleAgent)) = Inr ()
   \<and> validateConfiguration (withProvider ''openai'' (withProvider ''vllm'' exampleAgent)) = Inr ()
   \<and> validateAgent (withProvider ''vllm'' exampleAgent) = Inr ()
   \<and> validateConfiguration (withProvider ''vllm'' exampleAgent) = Inr ()"
proof -
  have c: "withProvider ''openai'' (withProvider ''vllm'' exampleAgent) = exampleAgent"
    by (simp add: withProvider_def exampleAgent_def)
  have a: "validateAgent exampleAgent = Inr ()"
    by (simp add: validateAgent_def validateAgent_allErrs_def exampleAgent_def
          validProviders_def validServiceTypes_def word_sless_alt)
  have b: "validateConfiguration exampleAgent = Inr ()"
    by (simp add: validateConfiguration_def exampleAgent_def validProviders_def
          word_sless_alt)
  have d: "Provider (Spec (withProvider ''vllm'' exampleAgent)) = ''vllm''"
    by (simp add: withProvider_def)
  show ?thesis
    using a b provider_admitted_iff_one_of_four [of "withProvider ''vllm'' exampleAgent"]
    by (simp add: c d)
qed

text \<open>
  The claim as stated fails: it lists five providers, \<open>ollama\<close> among them. On an Agent
  whose other fields are valid (\<open>exampleAgent\<close> is admitted by both checks), provider
  \<open>ollama\<close> is rejected by the admission validator, with a field error on
  \<open>spec.provider\<close>, and by the reconciler's \<^verbatim>\<open>validateConfiguration\<close>: both search the
  slice \<^verbatim>\<open>{"openai", "gemini", "claude", "vllm"}\<close>.
\<close>

theorem ollama_provider_rejected:
  "validateAgent exampleAgent = Inr () \<and>
   validateConfiguration exampleAgent = Inr () \<and>
   validateAgent (withProvider ''ollama'' exampleAgent) =
     Inl (ValidationFailed
            [FieldInvalid ''spec.provider'' (StringValue ''ollama'')
               ''must be one of [openai gemini claude vllm]'']) \<and>
   validateConfiguration (withProvider ''ollama'' exampleAgent) =
     Inl (Errorf ''invalid provider: ollama, must be one of [openai gemini claude vllm]'')"
proof -
  have a: "validateAgent exampleAgent = Inr ()"
    by (simp add: validateAgent_def validateAgent_allErrs_def exampleAgent_def
          validProviders_def validServiceTypes_def word_sless_alt)
  have b: "validateConfiguration exampleAgent = Inr ()"
    by (simp add: validateConfiguration_def exampleAgent_def validProviders_def
          word_sless_alt)
  have c: "withProvider ''openai'' (withProvider ''ollama'' exampleAgent) = exampleAgent"
    by (simp add: withProvider_def exampleAgent_def)
  have d: "Provider (Spec (withProvider ''ollama'' exampleAgent)) = ''ollama''"
    by (simp add: withProvider_def)
  show ?thesis
    using a b validateAgent_provider [of "withProvider ''ollama'' exampleAgent"]
      validateConfiguration_provider [of "withProvider ''ollama'' exampleAgent"]
    by (simp add: c d)
qed

lemma Default_eq:
  "Default r = r\<lparr>Spec := (Spec r)\<lparr>
     Framework := (if Framework (Spec r) = [] then ''direct'' else Framework (Spec r)),
     Replicas := (case Replicas (Spec r) of None \<Rightarrow> Some 1 | Some n \<Rightarrow> Some n),
     ServiceType := (if ServiceType (Spec r) = [] then ''ClusterIP'' else ServiceType (Spec r)),
     Resources := (case Resources (Spec r) of None \<Rightarrow> Some defaultResources
                   | Some x \<Rightarrow> Some x)\<rparr>\<rparr>"
  by (simp add: Default_def Let_def split: option.splits)

lemma Default_Spec_idem: "Spec (Default (Default r)) = Spec (Default r)"
  by (rule AgentSpec.equality) (simp_all add: Default_eq split: option.splits)

lemma Default_idem: "Default (Default r) = Default r"
  by (rule Agent.equality) (simp_all add: Default_Spec_idem, simp_all add: Default_eq)

text \<open>
  Claim C7. \<^verbatim>\<open>Default\<close> changes exactly four fields of the spec, each only when it is
  unset (the empty string, a nil pointer), to \<open>direct\<close>, \<open>1\<close>, \<open>ClusterIP\<close> and the
  default resource record, which requests 256Mi of memory and 100m of CPU and limits
  them to 512Mi and 200m; a set field keeps the user's value, and everything else in
  the object is untouched. Applying it twice gives what applying it once gives.
\<close>

theorem Default_sets_only_unset_fields:
  "Default r = r\<lparr>Spec := (Spec r)\<lparr>
     Framework := (if Framework (Spec r) = [] then ''direct'' else Framework (Spec r)),
     Replicas := (case Replicas (Spec r) of None \<Rightarrow> Some 1 | Some n \<Rightarrow> Some n),
     ServiceType := (if ServiceType (Spec r) = [] then ''ClusterIP'' else ServiceType (Spec r)),
     Resources := (case Resources (Spec r) of
                     None \<Rightarrow> Some \<lparr>Requests = [(''memory'', ''256Mi''), (''cpu'', ''100m'')],
                                   Limits = [(''memory'', ''512Mi''), (''cpu'', ''200m'')]\<rparr>
                   | Some x \<Rightarrow> Some x)\<rparr>\<rparr>
   \<and> Default (Default r) = Default r"
proof
  show "Default r = r\<lparr>Spec := (Spec r)\<lparr>
     Framework := (if Framework (Spec r) = [] then ''direct'' else Framework (Spec r)),
     Replicas := (case Replicas (Spec r) of None \<Rightarrow> Some 1 | Some n \<Rightarrow> Some n),
     ServiceType := (if ServiceType (Spec r) = [] then ''ClusterIP'' else ServiceType (Spec r)),
     Resources := (case Resources (Spec r) of
                     None \<Rightarrow> Some \<lparr>Requests = [(''memory'', ''256Mi''), (''cpu'', ''100m'')],
                                   Limits = [(''memory'', ''512Mi''), (''cpu'', ''200m'')]\<rparr>
                   | Some x \<Rightarrow> Some x)\<rparr>\<rparr>"
    using Default_eq [of r] unfolding defaultResources_def .
  show "Default (Default r) = Default r"
    by (rule Default_idem)
qed

section \<open>Properties of the condition list\<close>

lemma find_updateCondition:
  "find (\<lambda>c. cType c = cType new) conditions = Some old \<Longrightarrow>
   find (\<lambda>c. cType c = cType new) (updateCondition conditions new) =
     Some (new\<lparr>cLastTransitionTime :=
                  (if cStatus old = cStatus new then cLastTransitionTime old
                   else cLastTransitionTime new)\<rparr>)"
  by (induction conditions) auto

lemma updateCondition_absent:
  "find (\<lambda>c. cType c = cType new) conditions = None \<Longrightarrow>
   updateCondition conditions new = conditions @ [new]"
  by (induction conditions) (auto split: if_splits)

lemma length_updateCondition:
  "find (\<lambda>c. cType c = cType new) conditions = Some old \<Longrightarrow>
   length (updateCondition conditions new) = length conditions"
  by (induction conditions) (auto split: if_splits)

text \<open>
  Claim C8. When the list holds a condition \<open>old\<close> of the new condition's type,
  \<^verbatim>\<open>updateCondition\<close> stores the new condition in its place, and the stored condition
  carries \<open>old\<close>'s \<open>lastTransitionTime\<close> if the status value is the same and the new
  condition's own time only if the status value differs. The list keeps its length.
\<close>

theorem updateCondition_keeps_transition_time:
  assumes "find (\<lambda>c. cType c = cType new) conditions = Some old"
  shows "find (\<lambda>c. cType c = cType new) (updateCondition conditions new) =
           Some (new\<lparr>cLastTransitionTime :=
                        (if cStatus old = cStatus new then cLastTransitionTime old
                         else cLastTransitionTime new)\<rparr>)
         \<and> length (updateCondition conditions new) = length conditions"
  using assms find_updateCondition length_updateCondition by blast

theorem updateCondition_keeps_transition_time_witness:
  "find (\<lambda>c. cType c = cType exampleNotReady) exampleConditions = Some (hd exampleConditions)
   \<and> map cLastTransitionTime (updateCondition exampleConditions exampleNotReady) = [Some 3]
   \<and> map cLastTransitionTime
        (updateCondition exampleConditions (exampleNotReady\<lparr>cStatus := ''True''\<rparr>)) = [Some 9]"
proof -
  have f: "find (\<lambda>c. cType c = cType exampleNotReady) exampleConditions
             = Some (hd exampleConditions)"
    by (simp add: exampleConditions_def exampleNotReady_def)
  have "find (\<lambda>c. cType c = cType exampleNotReady)
          (updateCondition exampleConditions exampleNotReady) =
        Some (exampleNotReady\<lparr>cLastTransitionTime := Some 3\<rparr>)"
    using updateCondition_keeps_transition_time [OF f]
    by (simp add: exampleConditions_def exampleNotReady_def)
  then show ?thesis
    using f by (simp add: exampleConditions_def exampleNotReady_def)
qed

section \<open>Properties of the HPA builder\<close>

text \<open>
  Claim C6. For an Agent with replicas \<open>r\<close> set, \<^verbatim>\<open>buildHPA\<close> gives \<open>minReplicas = r\<close> and
  \<open>maxReplicas = r * 3\<close> in \<^verbatim>\<open>int32\<close> arithmetic; for \<open>r\<close> in the validated range 1..10 that
  is the integer \<open>3 r\<close>. The scale target is the Deployment named after the Agent (the
  name \<^verbatim>\<open>buildDeployment\<close> gives it), and the metrics are CPU utilization 70 and memory
  utilization 80, in this order.
\<close>

theorem buildHPA_replicas_and_metrics:
  assumes "Replicas (Spec agent) = Some r"
  shows "MinReplicas (hpaSpec (buildHPA agent)) = Some r
       \<and> MaxReplicas (hpaSpec (buildHPA agent)) = r * 3
       \<and> (1 \<le>s r \<and> r \<le>s 10 \<longrightarrow> sint (MaxReplicas (hpaSpec (buildHPA agent))) = 3 * sint r)
       \<and> ScaleTargetRef (hpaSpec (buildHPA agent)) =
            \<lparr>refAPIVersion = ''apps/v1'', refKind = ''Deployment'',
             refName = Name (buildDeployment agent)\<rparr>
       \<and> Name (buildDeployment agent) = Name agent
       \<and> Metrics (hpaSpec (buildHPA agent)) =
            [\<lparr>metricType = ''Resource'',
              Resource = Some \<lparr>resourceName = ''cpu'',
                               Target = \<lparr>targetType = ''Utilization'',
                                         AverageUtilization = Some 70\<rparr>\<rparr>\<rparr>,
             \<lparr>metricType = ''Resource'',
              Resource = Some \<lparr>resourceName = ''memory'',
                               Target = \<lparr>targetType = ''Utilization'',
                                         AverageUtilization = Some 80\<rparr>\<rparr>\<rparr>]"
proof -
  have m: "MaxReplicas (hpaSpec (buildHPA agent)) = r * 3"
    using assms by (simp add: buildHPA_def Let_def)
  have "sint (r * 3) = 3 * sint r" if "1 \<le>s r" "r \<le>s 10"
    using that by (simp add: word_sle_eq sint_word_ariths signed_take_bit_int_eq_self)
  with m assms show ?thesis
    by (simp add: buildHPA_def buildDeployment_def Let_def int32Ptr_def
          ResourceMetricSourceType_def UtilizationMetricType_def)
qed

theorem buildHPA_replicas_and_metrics_witness:
  "Replicas (Spec (withReplicas (Some 2) exampleAgent)) = Some 2
   \<and> MinReplicas (hpaSpec (buildHPA (withReplicas (Some 2) exampleAgent))) = Some 2
   \<and> MaxReplicas (hpaSpec (buildHPA (withReplicas (Some 2) exampleAgent))) = 6
   \<and> sint (MaxReplicas (hpaSpec (buildHPA (withReplicas (Some 2) exampleAgent)))) = 6"
proof -
  have r: "Replicas (Spec (withReplicas (Some 2) exampleAgent)) = Some 2"
    by (simp add: withReplicas_def)
  have b: "(1::int32) \<le>s 2 \<and> (2::int32) \<le>s 10"
    by (simp add: word_sle_eq)
  show ?thesis
    using r b buildHPA_replicas_and_metrics [OF r] by simp
qed

section \<open>Reasoning about passes: the call log\<close>

text \<open>
  Every method appends its calls to the log and leaves the fault plan and the clock as
  they are. The lemmas of this section establish, method by method, which calls a
  method can issue.
\<close>

lemma and_then_Inl [simp]: "and_then (Inl e, w) f = (Inl e, w)"
  by (simp add: and_then_def)

lemma and_then_Inr [simp]: "and_then (Inr x, w) f = f x w"
  by (simp add: and_then_def)

lemma issues_refl [simp]: "issues P w w"
  by (simp add: issues_def newCalls_def)

lemma issues_trans: "issues P w w1 \<Longrightarrow> issues P w1 w2 \<Longrightarrow> issues P w w2"
proof -
  assume a: "issues P w w1" and b: "issues P w1 w2"
  from a obtain n1 where c1: "calls w1 = calls w @ n1" and p1: "list_all P n1"
    unfolding issues_def newCalls_def by (metis append_take_drop_id)
  from b obtain n2 where c2: "calls w2 = calls w1 @ n2" and p2: "list_all P n2"
    unfolding issues_def newCalls_def by (metis append_take_drop_id)
  have "calls w2 = calls w @ (n1 @ n2)" using c1 c2 by simp
  then show ?thesis
    using a b p1 p2 by (simp add: issues_def newCalls_def)
qed

lemma issues_mono: "issues P w w' \<Longrightarrow> (\<And>c. P c \<Longrightarrow> Q c) \<Longrightarrow> issues Q w w'"
  by (auto simp: issues_def list_all_iff)

lemma issues_record_call: "P c \<Longrightarrow> issues P w (record_call c w)"
  by (simp add: issues_def newCalls_def record_call_def)

lemma issues_step: "issues P w0 w \<Longrightarrow> P c \<Longrightarrow> issues P w0 (record_call c w)"
  by (rule issues_trans [OF _ issues_record_call])

lemma client_Get_snd: "snd (client_Get store kind w k) = record_call (Get kind k) w"
  by (simp add: client_Get_def Let_def split: option.splits)

lemma client_Status_Update_issues:
  "P (StatusUpdate agent) \<Longrightarrow> issues P w (snd (client_Status_Update w agent))"
  by (auto simp: client_Status_Update_def Let_def issues_def newCalls_def record_call_def
      split: option.splits)

lemma client_Update_Agent_issues:
  "P (Update (AgentObj agent)) \<Longrightarrow> issues P w (snd (client_Update_Agent w agent))"
  by (auto simp: client_Update_Agent_def Let_def issues_def newCalls_def record_call_def
      split: option.splits)

lemma client_Create_issues:
  assumes "\<And>f v. calls (put f v) = calls v" "\<And>f v. faults (put f v) = faults v"
    "\<And>f v. clock (put f v) = clock v" "P (Create (wrap obj))"
  shows "issues P w (snd (client_Create store put wrap w obj))"
  using assms
  by (auto simp: client_Create_def Let_def issues_def newCalls_def record_call_def
      split: option.splits)

lemma client_Update_issues:
  assumes "\<And>f v. calls (put f v) = calls v" "\<And>f v. faults (put f v) = faults v"
    "\<And>f v. clock (put f v) = clock v" "P (Update (wrap obj))"
  shows "issues P w (snd (client_Update store put wrap w obj))"
  using assms
  by (auto simp: client_Update_def Let_def issues_def newCalls_def record_call_def
      split: option.splits)

lemma client_Delete_issues:
  assumes "\<And>f v. calls (put f v) = calls v" "\<And>f v. faults (put f v) = faults v"
    "\<And>f v. clock (put f v) = clock v" "P (Delete (wrap obj))"
  shows "issues P w (snd (client_Delete store put wrap w obj))"
  using assms
  by (auto simp: client_Delete_def Let_def issues_def newCalls_def record_call_def
      split: option.splits)

lemma issues_record_call_iff [simp]: "issues P w (record_call c w) = P c"
  by (simp add: issues_def newCalls_def record_call_def)

lemma validateSecretRef_snd:
  "snd (validateSecretRef w agent) =
     record_call (Get KSecret (Namespace agent, secretName (ApiSecretRef (Spec agent)))) w"
  by (auto simp: validateSecretRef_def Let_def split: prod.splits sum.splits option.splits
       dest!: arg_cong [where f = snd] simp: client_Get_snd)

lemma validateSecretRef_issues: "issues convergeCall w (snd (validateSecretRef w agent))"
  by (simp add: validateSecretRef_snd)

lemma reconcileHPA_issues: "issues convergeCall w (snd (reconcileHPA w agent))"
  unfolding reconcileHPA_def
  by (auto split: prod.splits sum.splits option.splits
       dest!: arg_cong [where f = snd] simp: client_Get_snd
       intro!: issues_record_call issues_trans [OF issues_record_call client_Create_issues]
         issues_trans [OF issues_record_call client_Update_issues]
         issues_trans [OF issues_record_call client_Delete_issues])


lemma reconcileIngress_issues: "issues convergeCall w (snd (reconcileIngress w agent))"
  unfolding reconcileIngress_def
  by (auto split: prod.splits sum.splits option.splits
       dest!: arg_cong [where f = snd] simp: client_Get_snd
       intro!: issues_trans [OF issues_record_call client_Create_issues]
         issues_trans [OF issues_record_call client_Update_issues]
         issues_trans [OF issues_record_call client_Delete_issues])

lemma reconcileConfigMap_issues: "issues convergeCall w (snd (reconcileConfigMap w agent))"
  unfolding reconcileConfigMap_def
  by (auto split: prod.splits sum.splits option.splits
       dest!: arg_cong [where f = snd] simp: client_Get_snd
       intro!: issues_trans [OF issues_record_call client_Create_issues]
         issues_trans [OF issues_record_call client_Update_issues])

lemma reconcileDeployment_issues: "issues convergeCall w (snd (reconcileDeployment w agent))"
  unfolding reconcileDeployment_def
  by (auto split: prod.splits sum.splits option.splits
       dest!: arg_cong [where f = snd] simp: client_Get_snd
       intro!: issues_trans [OF issues_record_call client_Create_issues]
         issues_trans [OF issues_record_call client_Update_issues])

lemma reconcileService_issues: "issues convergeCall w (snd (reconcileService w agent))"
  unfolding reconcileService_def
  by (auto split: prod.splits sum.splits option.splits
       dest!: arg_cong [where f = snd] simp: client_Get_snd
       intro!: issues_trans [OF issues_record_call client_Create_issues]
         issues_trans [OF issues_record_call client_Update_issues])

lemma runningInvariant_not_running [simp]:
  "Phase st \<noteq> AgentPhaseRunning \<Longrightarrow> runningInvariant st"
  by (simp add: runningInvariant_def)

lemma statusFromDeployment_Phase:
  "(Phase (Status (statusFromDeployment now agent d n)) = AgentPhaseRunning) =
     (ReadyReplicas (deploymentStatus d) = n \<and> 0 <s n)"
  by (auto simp: statusFromDeployment_def Let_def AgentPhaseRunning_def AgentPhasePending_def)

lemma statusFromDeployment_ReplicaStatus:
  "ReplicaStatus (Status (statusFromDeployment now agent d n)) =
     \<lparr>Ready = ReadyReplicas (deploymentStatus d), Desired = n,
      Available = AvailableReplicas (deploymentStatus d)\<rparr>"
  by (simp add: statusFromDeployment_def Let_def)

lemma statusFromDeployment_invariant:
  "runningInvariant (Status (statusFromDeployment now agent d n))"
  by (simp add: runningInvariant_def statusFromDeployment_Phase
        statusFromDeployment_ReplicaStatus)

lemma updateAgentStatus_issues: "issues convergeCall w (snd (updateAgentStatus w agent))"
  unfolding updateAgentStatus_def
  by (auto split: prod.splits sum.splits option.splits
       dest!: arg_cong [where f = snd] simp: client_Get_snd statusFromDeployment_invariant
       intro!: issues_trans [OF issues_record_call client_Status_Update_issues])

lemma failedAgent_Phase [simp]: "Phase (Status (failedAgent now agent msg)) = AgentPhaseFailed"
  by (simp add: failedAgent_def Let_def)

lemma updateStatusFailed_snd:
  "snd (updateStatusFailed w agent msg) =
     snd (client_Status_Update w (failedAgent (clock w) agent msg))"
  by (simp add: updateStatusFailed_def split: prod.splits)

lemma updateStatusFailed_issues: "issues convergeCall w (snd (updateStatusFailed w agent msg))"
  by (simp add: updateStatusFailed_snd client_Status_Update_issues runningInvariant_def
        AgentPhaseFailed_def AgentPhaseRunning_def)

lemma updateStatusFailed_fst [simp]:
  "fst (updateStatusFailed w agent msg) = Inr \<lparr>Requeue = False, RequeueAfter = 120\<rparr>"
  by (simp add: updateStatusFailed_def Minute_def split: prod.splits)

lemma initializeStatus_issues:
  "issues convergeCall w (snd (initializeStatus msg agent w))"
  unfolding initializeStatus_def
  by (auto simp: Let_def and_then_def AgentPhasePending_def AgentPhaseRunning_def
       split: prod.splits sum.splits dest!: arg_cong [where f = snd]
       intro!: client_Status_Update_issues)


lemmas step_issues =
  issues_trans [OF _ validateSecretRef_issues]
  issues_trans [OF _ reconcileConfigMap_issues]
  issues_trans [OF _ reconcileDeployment_issues]
  issues_trans [OF _ reconcileService_issues]
  issues_trans [OF _ reconcileHPA_issues]
  issues_trans [OF _ reconcileIngress_issues]
  issues_trans [OF _ updateAgentStatus_issues]
  issues_trans [OF _ updateStatusFailed_issues]

lemma or_failed_issues:
  assumes "issues convergeCall w0 (snd m)"
    and "\<And>w1. issues convergeCall w0 w1 \<Longrightarrow> issues convergeCall w0 (snd (k w1))"
  shows "issues convergeCall w0 (snd (or_failed agent what m k))"
proof (cases m)
  case (Pair r w1)
  then show ?thesis
    using assms by (cases r) (auto simp: or_failed_def intro: step_issues)
qed

lemma and_then_issues:
  assumes "issues P w0 (snd m)"
    and "\<And>x w1. issues P w0 w1 \<Longrightarrow> issues P w0 (snd (k x w1))"
  shows "issues P w0 (snd (and_then m k))"
proof (cases m)
  case (Pair r w1)
  then show ?thesis
    using assms by (cases r) (auto simp: and_then_def)
qed

lemma reconcileChildren_issues:
  assumes "issues convergeCall w0 w"
  shows "issues convergeCall w0 (snd (reconcileChildren agent w))"
proof (cases "validateConfiguration agent")
  case (Inl err)
  then show ?thesis
    using assms by (simp add: reconcileChildren_def step_issues)
next
  case (Inr u)
  then show ?thesis
    using assms
    by (simp add: reconcileChildren_def)
       (intro or_failed_issues and_then_issues step_issues; simp)
qed

lemma reconcileActive_issues:
  assumes "issues convergeCall w0 w"
  shows "issues convergeCall w0 (snd (reconcileActive agent w))"
  unfolding reconcileActive_def
  using assms
  by (intro and_then_issues reconcileChildren_issues issues_trans [OF _ initializeStatus_issues])


lemma convergeCall_statusWriteOk: "convergeCall c \<Longrightarrow> statusWriteOk c"
  by (cases c) auto

lemma convergeCall_not_agent_update: "convergeCall c \<Longrightarrow> \<not> isAgentUpdate c"
  by (cases c rule: isAgentUpdate.cases) auto

lemma deletingAgent_Phase [simp]: "Phase (Status (deletingAgent now agent)) = AgentPhaseFailed"
  by (simp add: deletingAgent_def)

lemma cleanupResources_eq:
  "cleanupResources w agent =
     (Inr (deletingAgent (clock w) agent),
      snd (client_Status_Update w (deletingAgent (clock w) agent)))"
  by (simp add: cleanupResources_def Let_def split: prod.splits)

lemma cleanupResources_issues: "issues statusWriteOk w (snd (cleanupResources w agent))"
  by (simp add: cleanupResources_eq client_Status_Update_issues runningInvariant_def
        AgentPhaseFailed_def AgentPhaseRunning_def)

lemma Reconcile_issues: "issues statusWriteOk w (snd (Reconcile w req))"
proof -
  obtain r w1 where g: "client_Get agents KAgent w req = (r, w1)"
    by (cases "client_Get agents KAgent w req")
  have w1: "issues statusWriteOk w w1"
    using g client_Get_snd [of agents KAgent w req] by simp
  show ?thesis
  proof (cases r)
    case (Inl err)
    then show ?thesis using g w1 by (simp add: Reconcile_def)
  next
    case (Inr agent)
    show ?thesis
    proof (cases "DeletionTimestamp agent")
      case None
      have "issues statusWriteOk w
              (snd (and_then
                (if \<not> ContainsFinalizer agent finalizerName
                 then client_Update_Agent w1 (AddFinalizer agent finalizerName)
                 else (Inr agent, w1))
                reconcileActive))"
      proof (rule and_then_issues)
        show "issues statusWriteOk w
               (snd (if \<not> ContainsFinalizer agent finalizerName
                     then client_Update_Agent w1 (AddFinalizer agent finalizerName)
                     else (Inr agent, w1)))"
          using w1 by (auto intro: issues_trans [OF _ client_Update_Agent_issues])
      next
        fix x w2
        assume "issues statusWriteOk w w2"
        then show "issues statusWriteOk w (snd (reconcileActive x w2))"
          by (rule issues_trans)
             (rule issues_mono [OF reconcileActive_issues [OF issues_refl]
                 convergeCall_statusWriteOk])
      qed
      then show ?thesis using g Inr None by (simp add: Reconcile_def)
    next
      case (Some t)
      have "issues statusWriteOk w
              (snd (and_then (cleanupResources w1 agent) (\<lambda>agent w2.
                   and_then (client_Update_Agent w2 (RemoveFinalizer agent finalizerName))
                     (\<lambda>agent w3. (Inr \<lparr>Requeue = False, RequeueAfter = 0\<rparr>, w3)))))"
        using w1
        by (intro and_then_issues issues_trans [OF _ cleanupResources_issues]
              issues_trans [OF _ client_Update_Agent_issues]; simp)
      then show ?thesis using g Inr Some w1 by (simp add: Reconcile_def)
    qed
  qed
qed

lemma issues_newCalls: "issues P w w' \<Longrightarrow> list_all P (newCalls w w')"
  by (simp add: issues_def)

lemma updateAgentStatus_eq:
  assumes "client_Get deployments KDeployment w (Namespace agent, Name agent) = (Inr d, w1)"
    and "deploymentReplicas (deploymentSpec d) = Some n"
  shows "updateAgentStatus w agent =
           client_Status_Update w1 (statusFromDeployment (clock w) agent d n)"
  using assms client_Get_snd [of deployments KDeployment w "(Namespace agent, Name agent)"]
  by (simp add: updateAgentStatus_def record_call_def)

section \<open>Reasoning about passes: the calls of single steps\<close>

lemma client_Status_Update_calls:
  "calls (snd (client_Status_Update w agent)) = calls w @ [StatusUpdate agent]"
  by (simp add: client_Status_Update_def Let_def record_call_def split: option.splits)

lemma client_Update_Agent_calls:
  "calls (snd (client_Update_Agent w agent)) = calls w @ [Update (AgentObj agent)]"
  by (simp add: client_Update_Agent_def Let_def record_call_def split: option.splits)

lemma client_Get_calls:
  "client_Get store kind w k = (r, w1) \<Longrightarrow> calls w1 = calls w @ [Get kind k]"
  using client_Get_snd [of store kind w k] by (simp add: record_call_def)

lemma client_Get_clock: "client_Get store kind w k = (r, w1) \<Longrightarrow> clock w1 = clock w"
  using client_Get_snd [of store kind w k] by (simp add: record_call_def)

lemma newCalls_append [simp]: "calls w' = calls w @ new \<Longrightarrow> newCalls w w' = new"
  by (simp add: newCalls_def)

lemma issues_calls: "issues P w w' \<Longrightarrow> calls w' = calls w @ newCalls w w'"
  unfolding issues_def newCalls_def by (metis append_take_drop_id)

lemma filter_none: "list_all (\<lambda>c. \<not> P c) xs \<Longrightarrow> filter P xs = []"
  by (induction xs) auto

lemma ContainsFinalizer_AddFinalizer [simp]: "ContainsFinalizer (AddFinalizer obj f) f"
  by (simp add: ContainsFinalizer_def AddFinalizer_def contains_string_set)

lemma ContainsFinalizer_RemoveFinalizer [simp]: "\<not> ContainsFinalizer (RemoveFinalizer obj f) f"
  by (simp add: ContainsFinalizer_def RemoveFinalizer_def contains_string_set)

lemma createDeployment_issues: "issues (\<lambda>c. \<not> isAgentUpdate c) w (snd (createDeployment w agent))"
  unfolding createDeployment_def
  by (auto split: prod.splits sum.splits option.splits
       dest!: arg_cong [where f = snd] simp: client_Get_snd
       intro!: issues_trans [OF issues_record_call client_Create_issues]
         issues_trans [OF issues_record_call client_Update_issues])

lemma createService_issues: "issues (\<lambda>c. \<not> isAgentUpdate c) w (snd (createService w agent))"
  unfolding createService_def
  by (auto split: prod.splits sum.splits option.splits
       dest!: arg_cong [where f = snd] simp: client_Get_snd
       intro!: issues_trans [OF issues_record_call client_Create_issues]
         issues_trans [OF issues_record_call client_Update_issues])

lemma simple_updateStatusFailed_issues:
  "issues (\<lambda>c. \<not> isAgentUpdate c) w (snd (simple_updateStatusFailed w agent msg))"
  by (auto simp: simple_updateStatusFailed_def Let_def split: prod.splits
        dest!: arg_cong [where f = snd] intro!: client_Status_Update_issues)

lemma simple_createAndRun_issues:
  assumes "issues (\<lambda>c. \<not> isAgentUpdate c) w0 w"
  shows "issues (\<lambda>c. \<not> isAgentUpdate c) w0 (snd (simple_createAndRun agent w))"
proof -
  obtain r1 w1 where d: "createDeployment w agent = (r1, w1)"
    by (cases "createDeployment w agent")
  obtain r2 w2 where s: "createService w1 agent = (r2, w2)"
    by (cases "createService w1 agent")
  have i1: "issues (\<lambda>c. \<not> isAgentUpdate c) w0 w1"
    using issues_trans [OF assms createDeployment_issues [of w agent]] d by simp
  have i2: "issues (\<lambda>c. \<not> isAgentUpdate c) w0 w2"
    using issues_trans [OF i1 createService_issues [of w1 agent]] s by simp
  show ?thesis
    using d s i1 i2
    by (auto simp: simple_createAndRun_def Let_def split: sum.splits prod.splits
          dest!: arg_cong [where f = snd]
          intro!: and_then_issues issues_trans [OF _ simple_updateStatusFailed_issues]
            issues_trans [OF _ client_Status_Update_issues])
qed

lemma simple_active_issues:
  assumes "issues (\<lambda>c. \<not> isAgentUpdate c) w0 w"
  shows "issues (\<lambda>c. \<not> isAgentUpdate c) w0
           (snd (and_then (initializeStatus msg agent w) simple_createAndRun))"
  using assms
  by (intro and_then_issues simple_createAndRun_issues
        issues_trans [OF _ issues_mono [OF initializeStatus_issues convergeCall_not_agent_update]])

lemma reconcileActive_no_agent_update:
  assumes "issues (\<lambda>c. \<not> isAgentUpdate c) w0 w"
  shows "issues (\<lambda>c. \<not> isAgentUpdate c) w0 (snd (reconcileActive agent w))"
  using assms
  by (rule issues_trans)
     (rule issues_mono [OF reconcileActive_issues [OF issues_refl] convergeCall_not_agent_update])

lemma client_Update_Agent_DeletionTimestamp:
  "client_Update_Agent w agent = (Inr agent', w') \<Longrightarrow>
   DeletionTimestamp agent' = DeletionTimestamp agent"
  by (auto simp: client_Update_Agent_def Let_def split: option.splits)

text \<open>After the one update of the Agent, no call of the pass updates the Agent again.\<close>

lemma one_agent_update:
  assumes c1: "calls w1 = calls w @ [Get KAgent req]"
    and k: "\<And>x w2. issues (\<lambda>c. \<not> isAgentUpdate c) (snd (client_Update_Agent w1 a)) w2 \<Longrightarrow>
              issues (\<lambda>c. \<not> isAgentUpdate c) (snd (client_Update_Agent w1 a)) (snd (f x w2))"
  shows "filter isAgentUpdate (newCalls w (snd (and_then (client_Update_Agent w1 a) f)))
           = [Update (AgentObj a)]"
proof -
  let ?u = "snd (client_Update_Agent w1 a)"
  have "issues (\<lambda>c. \<not> isAgentUpdate c) ?u (snd (and_then (client_Update_Agent w1 a) f))"
    by (rule and_then_issues) (simp, rule k)
  then obtain rest where r: "calls (snd (and_then (client_Update_Agent w1 a) f))
          = calls ?u @ rest" and n: "list_all (\<lambda>c. \<not> isAgentUpdate c) rest"
    using issues_calls issues_newCalls by blast
  have "calls (snd (and_then (client_Update_Agent w1 a) f))
          = calls w @ ([Get KAgent req, Update (AgentObj a)] @ rest)"
    using r by (simp add: client_Update_Agent_calls c1)
  then have "newCalls w (snd (and_then (client_Update_Agent w1 a) f))
          = [Get KAgent req, Update (AgentObj a)] @ rest"
    by (rule newCalls_append)
  then show ?thesis
    using n by (simp add: filter_none)
qed

lemma issues_clock: "issues P w w' \<Longrightarrow> clock w' = clock w"
  by (simp add: issues_def)

lemma simple_updateStatusFailed_fst [simp]:
  "fst (simple_updateStatusFailed w agent msg) = \<lparr>Requeue = False, RequeueAfter = 120\<rparr>"
  by (simp add: simple_updateStatusFailed_def Minute_def Let_def split: prod.splits)

lemma simple_createAndRun_success:
  assumes "fst (simple_createAndRun agent w) = Inr res" and "RequeueAfter res = Minute * 5"
  shows "last (calls (snd (simple_createAndRun agent w)))
           = StatusUpdate (simpleRunningAgent (clock w) agent)"
proof -
  obtain r1 w1 where d: "createDeployment w agent = (r1, w1)"
    by (cases "createDeployment w agent")
  obtain r2 w2 where s: "createService w1 agent = (r2, w2)"
    by (cases "createService w1 agent")
  have k1: "clock w1 = clock w"
    using issues_clock [OF createDeployment_issues [of w agent]] d by simp
  have k2: "clock w2 = clock w"
    using issues_clock [OF createService_issues [of w1 agent]] s k1 by simp
  have r1: "r1 = Inr ()"
    using assms d
    by (cases r1) (auto simp: simple_createAndRun_def Minute_def split: prod.splits
          dest!: arg_cong [where f = fst])
  have r2: "r2 = Inr ()"
    using assms d s r1
    by (cases r2) (auto simp: simple_createAndRun_def Minute_def split: prod.splits
          dest!: arg_cong [where f = fst])
  have "snd (simple_createAndRun agent w)
          = snd (client_Status_Update w2 (simpleRunningAgent (clock w) agent))"
    using d s r1 r2 k2
    by (cases "client_Status_Update w2 (simpleRunningAgent (clock w) agent)")
       (auto simp: simple_createAndRun_def simpleRunningAgent_def Let_def and_then_def
          split: sum.splits)
  then show ?thesis
    by (simp add: client_Status_Update_calls)
qed

lemma teardown_calls:
  assumes get: "client_Get agents KAgent w req = (Inr agent, w1)"
    and del: "DeletionTimestamp agent = Some t"
  shows "newCalls w (snd (Reconcile w req)) =
           (if ContainsFinalizer agent finalizerName
            then [Get KAgent req,
                  StatusUpdate (deletingAgent (clock w) agent),
                  Update (AgentObj (RemoveFinalizer (deletingAgent (clock w) agent) finalizerName))]
            else [Get KAgent req])"
proof -
  let ?a1 = "deletingAgent (clock w) agent"
  have c1: "calls w1 = calls w @ [Get KAgent req]" and k1: "clock w1 = clock w"
    using get client_Get_calls client_Get_clock by blast+
  show ?thesis
  proof (cases "ContainsFinalizer agent finalizerName")
    case True
    have R: "Reconcile w req =
       and_then (client_Update_Agent (snd (client_Status_Update w1 ?a1))
                   (RemoveFinalizer ?a1 finalizerName))
         (\<lambda>agent w3. (Inr \<lparr>Requeue = False, RequeueAfter = 0\<rparr>, w3))"
      using get del True by (simp add: Reconcile_def cleanupResources_eq k1)
    have "calls (snd (Reconcile w req)) =
            calls w @ [Get KAgent req, StatusUpdate ?a1,
                       Update (AgentObj (RemoveFinalizer ?a1 finalizerName))]"
      unfolding R
      using client_Update_Agent_calls [of "snd (client_Status_Update w1 ?a1)"
              "RemoveFinalizer ?a1 finalizerName"]
      by (cases "client_Update_Agent (snd (client_Status_Update w1 ?a1))
                   (RemoveFinalizer ?a1 finalizerName)")
         (auto simp: and_then_def client_Status_Update_calls c1 split: sum.splits)
    then show ?thesis using True by simp
  next
    case False
    then show ?thesis using get del c1 by (simp add: Reconcile_def)
  qed
qed

lemma basic_Reconcile_issues: "issues statusWriteOk w (snd (basic_Reconcile w req))"
proof -
  obtain r w1 where g: "client_Get agents KAgent w req = (r, w1)"
    by (cases "client_Get agents KAgent w req")
  have w1: "issues convergeCall w w1"
    using g client_Get_snd [of agents KAgent w req] by simp
  have "issues convergeCall w (snd (basic_Reconcile w req))"
  proof (cases r)
    case (Inl err)
    then show ?thesis using g w1 by (simp add: basic_Reconcile_def)
  next
    case (Inr agent)
    then show ?thesis
      using g w1
      by (simp add: basic_Reconcile_def)
         (intro and_then_issues or_failed_issues step_issues
            issues_trans [OF _ initializeStatus_issues]; simp)
  qed
  then show ?thesis
    by (rule issues_mono) (rule convergeCall_statusWriteOk)
qed

section \<open>Reasoning about passes: the failure branch\<close>

lemma initializeStatus_issues_any:
  "(\<And>a. P (StatusUpdate a)) \<Longrightarrow> issues P w (snd (initializeStatus msg agent w))"
  unfolding initializeStatus_def
  by (auto simp: Let_def and_then_def
       split: prod.splits sum.splits dest!: arg_cong [where f = snd]
       intro!: client_Status_Update_issues)

lemma find_updateCondition_new:
  "find (\<lambda>c. cType c = cType new) (updateCondition conditions new)
     = Some (new\<lparr>cLastTransitionTime :=
         (case find (\<lambda>c. cType c = cType new) conditions of
            None \<Rightarrow> cLastTransitionTime new
          | Some old \<Rightarrow> if cStatus old = cStatus new then cLastTransitionTime old
                        else cLastTransitionTime new)\<rparr>)"
  by (induction conditions) auto

lemma failedAgent_Degraded:
  "map_option cStatus (find (\<lambda>c. cType c = AgentConditionDegraded)
      (Conditions (Status (failedAgent now agent msg)))) = Some ConditionTrue
   \<and> map_option cReason (find (\<lambda>c. cType c = AgentConditionDegraded)
      (Conditions (Status (failedAgent now agent msg)))) = Some ''ReconciliationFailed''
   \<and> map_option cMessage (find (\<lambda>c. cType c = AgentConditionDegraded)
      (Conditions (Status (failedAgent now agent msg)))) = Some msg"
proof -
  let ?n = "\<lparr>cType = AgentConditionDegraded, cStatus = ConditionTrue,
            cReason = ''ReconciliationFailed'', cMessage = msg,
            cLastTransitionTime = Some now\<rparr>"
  have "cType ?n = AgentConditionDegraded" by simp
  then show ?thesis
    using find_updateCondition_new [of ?n "Conditions (Status agent)"]
    by (simp add: failedAgent_def Let_def)
qed

lemma failedAgent_fields [simp]:
  "Message (Status (failedAgent now agent msg)) = msg"
  "key_of (failedAgent now agent msg) = key_of agent"
  by (simp_all add: failedAgent_def Let_def key_of_def)

text \<open>What the pass does from the point where validation or the credential check fails.\<close>

lemma reconcileChildren_failed:
  assumes "validateConfiguration agent = Inl err \<and> w3 = w2
             \<and> msg = ''Configuration validation failed: '' @ error_string err
         \<or> validateConfiguration agent = Inr () \<and> validateSecretRef w2 agent = (Inl err, w3)
             \<and> msg = ''Secret validation failed: '' @ error_string err"
  shows "reconcileChildren agent w2 = updateStatusFailed w3 agent msg"
  using assms by (auto simp: reconcileChildren_def or_failed_def)

lemma client_Status_Update_stores:
  "next_fault w = None \<Longrightarrow> agents w (key_of agent) = Some stored \<Longrightarrow>
   agents (snd (client_Status_Update w agent)) (key_of agent)
     = Some (stored\<lparr>Status := Status agent\<rparr>)"
  by (simp add: client_Status_Update_def Let_def record_call_def)

lemma client_Status_Update_deployments [simp]:
  "deployments (snd (client_Status_Update w agent)) = deployments w"
  by (simp add: client_Status_Update_def Let_def record_call_def split: option.splits)

lemma client_Update_Agent_deployments [simp]:
  "deployments (snd (client_Update_Agent w agent)) = deployments w"
  by (simp add: client_Update_Agent_def Let_def record_call_def split: option.splits)

lemma record_call_deployments [simp]: "deployments (record_call c w) = deployments w"
  by (simp add: record_call_def)

lemma initializeStatus_deployments [simp]:
  "deployments (snd (initializeStatus msg agent w)) = deployments w"
  by (auto simp: initializeStatus_def Let_def and_then_def split: prod.splits sum.splits
        dest!: arg_cong [where f = snd])

section \<open>Reasoning about passes: the conditional children\<close>

lemma untouched_refl [simp]: "untouched w w"
  by (simp add: untouched_def)

lemma untouched_trans: "untouched w w1 \<Longrightarrow> untouched w1 w2 \<Longrightarrow> untouched w w2"
  by (simp add: untouched_def)

lemma untouched_record_call [simp]: "untouched w (record_call c w)"
  by (simp add: untouched_def record_call_def)

lemma untouched_Status_Update [simp]: "untouched w (snd (client_Status_Update w agent))"
  by (simp add: untouched_def client_Status_Update_def Let_def record_call_def
        split: option.splits)

lemma untouched_Update_Agent [simp]: "untouched w (snd (client_Update_Agent w agent))"
  by (simp add: untouched_def client_Update_Agent_def Let_def record_call_def
        split: option.splits)

lemma untouched_initializeStatus [simp]: "untouched w (snd (initializeStatus msg agent w))"
  by (auto simp: initializeStatus_def Let_def and_then_def split: prod.splits sum.splits
        dest!: arg_cong [where f = snd])

lemma untouched_validateSecretRef [simp]: "untouched w (snd (validateSecretRef w agent))"
  by (simp add: validateSecretRef_snd)

lemma untouched_reconcileConfigMap [simp]: "untouched w (snd (reconcileConfigMap w agent))"
  by (auto simp: untouched_def reconcileConfigMap_def client_Get_def client_Create_def
        client_Update_def record_call_def Let_def
        split: sum.splits option.splits)

lemma untouched_reconcileDeployment [simp]: "untouched w (snd (reconcileDeployment w agent))"
  by (auto simp: untouched_def reconcileDeployment_def client_Get_def client_Create_def
        client_Update_def record_call_def Let_def
        split: sum.splits option.splits)

lemma untouched_reconcileService [simp]: "untouched w (snd (reconcileService w agent))"
  by (auto simp: untouched_def reconcileService_def client_Get_def client_Create_def
        client_Update_def record_call_def Let_def
        split: sum.splits option.splits)

lemma untouched_updateAgentStatus [simp]: "untouched w (snd (updateAgentStatus w agent))"
  by (auto simp: untouched_def updateAgentStatus_def client_Get_def client_Status_Update_def
        record_call_def Let_def
        split: sum.splits option.splits)

lemma reconcileHPA_keeps:
  "ingresses (snd (reconcileHPA w agent)) = ingresses w
   \<and> faults (snd (reconcileHPA w agent)) = faults w"
  by (auto simp: reconcileHPA_def client_Get_def client_Create_def client_Delete_def
        client_Update_def record_call_def Let_def
        split: sum.splits option.splits)

lemma reconcileIngress_keeps:
  "hpas (snd (reconcileIngress w agent)) = hpas w
   \<and> faults (snd (reconcileIngress w agent)) = faults w"
  by (auto simp: reconcileIngress_def client_Get_def client_Create_def client_Delete_def
        client_Update_def record_call_def Let_def
        split: sum.splits option.splits)

lemma SetControllerReference_fresh:
  "OwnerReferences obj = [] \<Longrightarrow>
   SetControllerReference agent obj = Inr (obj\<lparr>OwnerReferences := [controllerRef agent]\<rparr>)"
  by (simp add: SetControllerReference_def)

lemma buildHPA_owned: "SetControllerReference agent (buildHPA agent) = Inr (ownedHPA agent)"
  by (simp add: SetControllerReference_fresh ownedHPA_def buildHPA_def Let_def
        split: option.splits)

lemma buildIngress_owned:
  "SetControllerReference agent (buildIngress agent) = Inr (ownedIngress agent)"
  by (simp add: SetControllerReference_fresh ownedIngress_def buildIngress_def Let_def)

lemma ownedHPA_key [simp]:
  "key_of (ownedHPA agent) = hpaKey agent"
  "Namespace (ownedHPA agent) = Namespace agent"
  "Name (ownedHPA agent) = Name agent @ ''-hpa''"
  "hpaSpec (ownedHPA agent) = hpaSpec (buildHPA agent)"
  by (simp_all add: ownedHPA_def buildHPA_def key_of_def hpaKey_def Let_def split: option.splits)

lemma ownedIngress_key [simp]:
  "key_of (ownedIngress agent) = ingressKey agent"
  "Namespace (ownedIngress agent) = Namespace agent"
  "Name (ownedIngress agent) = Name agent @ ''-ingress''"
  "ingressSpec (ownedIngress agent) = ingressSpec (buildIngress agent)"
  by (simp_all add: ownedIngress_def buildIngress_def key_of_def ingressKey_def Let_def)

lemma reconcileHPA_answered:
  assumes "twoAnswers w" and "storedUnder (hpas w) (hpaKey agent)"
  shows "fst (reconcileHPA w agent) = Inr ()
       \<and> hpas (snd (reconcileHPA w agent)) =
           (if Replicas (Spec agent) = Some 1 then (hpas w)(hpaKey agent := None)
            else (hpas w)(hpaKey agent \<mapsto>
                   (case hpas w (hpaKey agent) of
                      None \<Rightarrow> ownedHPA agent
                    | Some found \<Rightarrow> found\<lparr>hpaSpec := hpaSpec (buildHPA agent)\<rparr>)))
       \<and> map callShape (newCalls w (snd (reconcileHPA w agent))) =
           (if Replicas (Spec agent) = Some 1
            then (if hpas w (hpaKey agent) = None then [(VGet, KHPA)]
                  else [(VGet, KHPA), (VDelete, KHPA)])
            else (if hpas w (hpaKey agent) = None then [(VGet, KHPA), (VCreate, KHPA)]
                  else [(VGet, KHPA), (VUpdate, KHPA)]))"
  using assms
  by (auto simp: reconcileHPA_def buildHPA_owned twoAnswers_def storedUnder_def
        client_Get_def client_Create_def client_Delete_def client_Update_def
        record_call_def next_fault_def Let_def hpaKey_def key_of_def newCalls_def notFound_def
        split: option.splits)

lemma reconcileIngress_answered:
  assumes "twoAnswers w" and "storedUnder (ingresses w) (ingressKey agent)"
  shows "fst (reconcileIngress w agent) = Inr ()
       \<and> ingresses (snd (reconcileIngress w agent)) =
           (if ServiceType (Spec agent) \<noteq> ''LoadBalancer''
            then (ingresses w)(ingressKey agent := None)
            else (ingresses w)(ingressKey agent \<mapsto>
                   (case ingresses w (ingressKey agent) of
                      None \<Rightarrow> ownedIngress agent
                    | Some found \<Rightarrow> found\<lparr>ingressSpec := ingressSpec (buildIngress agent)\<rparr>)))"
  using assms
  by (auto simp: reconcileIngress_def buildIngress_owned twoAnswers_def storedUnder_def
        client_Get_def client_Create_def client_Delete_def client_Update_def
        record_call_def next_fault_def Let_def ingressKey_def key_of_def notFound_def
        split: option.splits)

lemma updateStatusFailed_not_periodic:
  "updateStatusFailed w agent msg = (Inr res, w') \<Longrightarrow> RequeueAfter res = 120"
  using updateStatusFailed_fst [of w agent msg] by simp

lemma reconcileChildren_success:
  assumes "reconcileChildren agent w = (Inr res, w')" and "RequeueAfter res = Minute * 5"
  shows "\<exists>w1 w2 w3 w4 w5 w6.
           validateConfiguration agent = Inr ()
         \<and> validateSecretRef w agent = (Inr (), w1)
         \<and> reconcileConfigMap w1 agent = (Inr (), w2)
         \<and> reconcileDeployment w2 agent = (Inr (), w3)
         \<and> reconcileService w3 agent = (Inr (), w4)
         \<and> reconcileHPA w4 agent = (Inr (), w5)
         \<and> reconcileIngress w5 agent = (Inr (), w6)
         \<and> updateAgentStatus w6 agent = (Inr (), w')"
  using assms
  by (auto simp: reconcileChildren_def or_failed_def and_then_def Minute_def
        split: sum.splits prod.splits dest: updateStatusFailed_not_periodic)

lemma client_Update_Agent_same:
  "client_Update_Agent w agent = (Inr agent', w') \<Longrightarrow>
   Spec agent' = Spec agent \<and> Name agent' = Name agent \<and> Namespace agent' = Namespace agent"
  by (auto simp: client_Update_Agent_def Let_def split: option.splits)

lemma initializeStatus_same:
  "initializeStatus msg agent w = (Inr agent', w') \<Longrightarrow>
   Spec agent' = Spec agent \<and> Name agent' = Name agent \<and> Namespace agent' = Namespace agent"
  by (auto simp: initializeStatus_def Let_def and_then_def split: if_splits sum.splits prod.splits)

lemma AddFinalizer_same [simp]:
  "Spec (AddFinalizer agent f) = Spec agent"
  "Name (AddFinalizer agent f) = Name agent"
  "Namespace (AddFinalizer agent f) = Namespace agent"
  by (simp_all add: AddFinalizer_def)

lemma Reconcile_success:
  assumes ok: "Reconcile w req = (Inr res, w')" and p: "RequeueAfter res = Minute * 5"
    and get: "client_Get agents KAgent w req = (Inr agent, w0)"
  shows "\<exists>agent' w2. Spec agent' = Spec agent \<and> Name agent' = Name agent
            \<and> Namespace agent' = Namespace agent \<and> untouched w w2
            \<and> reconcileChildren agent' w2 = (Inr res, w')"
proof -
  have w0: "w0 = record_call (Get KAgent req) w"
    using get client_Get_snd [of agents KAgent w req] by simp
  have nd: "DeletionTimestamp agent = None"
  proof (cases "DeletionTimestamp agent")
    case (Some t)
    then show ?thesis
      using ok p get
      by (auto simp: Reconcile_def and_then_def cleanupResources_eq Minute_def
            split: if_splits sum.splits prod.splits)
  qed simp
  let ?fin = "if \<not> ContainsFinalizer agent finalizerName
              then client_Update_Agent w0 (AddFinalizer agent finalizerName)
              else (Inr agent, w0)"
  have R: "Reconcile w req = and_then ?fin reconcileActive"
    using get nd by (simp add: Reconcile_def)
  obtain r1 w1 where f: "?fin = (r1, w1)" by (cases ?fin)
  obtain a1 where r1: "r1 = Inr a1"
    using ok R f by (cases r1) auto
  have a1: "Spec a1 = Spec agent \<and> Name a1 = Name agent \<and> Namespace a1 = Namespace agent"
    using f r1 client_Update_Agent_same [of w0 "AddFinalizer agent finalizerName" a1 w1]
    by (auto split: if_splits)
  have u1: "untouched w w1"
  proof -
    have "w1 = snd ?fin" using f by simp
    then have "untouched w0 w1" by (auto split: if_splits)
    then show ?thesis using w0 untouched_trans [OF untouched_record_call] by blast
  qed
  have A: "reconcileActive a1 w1 = (Inr res, w')"
    using ok R f r1 by simp
  obtain r2 w2 where s: "initializeStatus ''Initializing agent deployment'' a1 w1 = (r2, w2)"
    by (cases "initializeStatus ''Initializing agent deployment'' a1 w1")
  obtain a2 where r2: "r2 = Inr a2"
    using A s by (cases r2) (auto simp: reconcileActive_def)
  have a2: "Spec a2 = Spec a1 \<and> Name a2 = Name a1 \<and> Namespace a2 = Namespace a1"
    using s r2 initializeStatus_same by blast
  have u2: "untouched w w2"
  proof -
    have "w2 = snd (initializeStatus ''Initializing agent deployment'' a1 w1)" using s by simp
    then have "untouched w1 w2" by simp
    then show ?thesis using u1 untouched_trans by blast
  qed
  have "reconcileChildren a2 w2 = (Inr res, w')"
    using A s r2 by (simp add: reconcileActive_def)
  then show ?thesis using a1 a2 u2 by auto
qed

lemma noFaults_twoAnswers: "noFaults w \<Longrightarrow> faults w' = faults w \<Longrightarrow> twoAnswers w'"
  by (simp add: noFaults_def twoAnswers_def next_fault_def)

lemma signed_above_one: "\<not> r <s 1 \<Longrightarrow> (r \<noteq> 1) = (1 <s (r::int32))"
  using signed.not_less_iff_gr_or_eq by blast

lemma validated_replicas:
  "validateConfiguration agent = Inr () \<Longrightarrow>
   (Replicas (Spec agent) \<noteq> Some 1) =
     (case Replicas (Spec agent) of None \<Rightarrow> True | Some r \<Rightarrow> 1 <s r)"
  by (auto simp: validateConfiguration_def Let_def signed_above_one
        split: if_splits option.splits)

section \<open>Teardown\<close>

text \<open>
  Claim C10. When the Agent fetched by a pass has its deletion timestamp set and carries
  the finalizer, the pass makes exactly three calls, in this order: the fetch, a status
  write of the Agent with phase \<open>Failed\<close> and message \<open>Agent is being deleted\<close> (still
  carrying the finalizer), and the update that removes the finalizer. When the server
  accepts the status write, the stored Agent has phase \<open>Failed\<close> before the finalizer is
  removed, whatever its phase was (Running in the example that follows).
\<close>

theorem teardown_sets_failed_before_removing_finalizer:
  assumes get: "client_Get agents KAgent w req = (Inr agent, w1)"
    and del: "DeletionTimestamp agent = Some t"
    and fin: "ContainsFinalizer agent finalizerName"
  shows "newCalls w (snd (Reconcile w req)) =
           [Get KAgent req,
            StatusUpdate (deletingAgent (clock w) agent),
            Update (AgentObj (RemoveFinalizer (deletingAgent (clock w) agent) finalizerName))]
       \<and> Phase (Status (deletingAgent (clock w) agent)) = AgentPhaseFailed
       \<and> Message (Status (deletingAgent (clock w) agent)) = ''Agent is being deleted''
       \<and> ContainsFinalizer (deletingAgent (clock w) agent) finalizerName
       \<and> \<not> ContainsFinalizer (RemoveFinalizer (deletingAgent (clock w) agent) finalizerName)
             finalizerName
       \<and> (next_fault w1 = None \<and> agents w1 (key_of agent) = Some agent \<longrightarrow>
            agents (snd (cleanupResources w1 agent)) (key_of agent)
              = Some (deletingAgent (clock w) agent))"
proof -
  let ?a1 = "deletingAgent (clock w) agent"
  have c1: "calls w1 = calls w @ [Get KAgent req]" and k1: "clock w1 = clock w"
    using get client_Get_calls client_Get_clock by blast+
  have R: "Reconcile w req =
     and_then (client_Update_Agent (snd (client_Status_Update w1 ?a1))
                 (RemoveFinalizer ?a1 finalizerName))
       (\<lambda>agent w3. (Inr \<lparr>Requeue = False, RequeueAfter = 0\<rparr>, w3))"
    using get del fin by (simp add: Reconcile_def cleanupResources_eq k1)
  have "calls (snd (Reconcile w req)) =
          calls w @ [Get KAgent req, StatusUpdate ?a1,
                     Update (AgentObj (RemoveFinalizer ?a1 finalizerName))]"
    unfolding R
    using client_Update_Agent_calls [of "snd (client_Status_Update w1 ?a1)"
            "RemoveFinalizer ?a1 finalizerName"]
    by (cases "client_Update_Agent (snd (client_Status_Update w1 ?a1))
                 (RemoveFinalizer ?a1 finalizerName)")
       (auto simp: and_then_def client_Status_Update_calls c1 split: sum.splits)
  moreover have "ContainsFinalizer ?a1 finalizerName"
    using fin by (simp add: ContainsFinalizer_def deletingAgent_def)
  moreover have "next_fault w1 = None \<and> agents w1 (key_of agent) = Some agent \<longrightarrow>
            agents (snd (cleanupResources w1 agent)) (key_of agent) = Some ?a1"
    by (auto simp: cleanupResources_eq k1 client_Status_Update_def Let_def key_of_def
          deletingAgent_def record_call_def)
  ultimately show ?thesis
    by (simp add: deletingAgent_def)
qed

theorem teardown_sets_failed_before_removing_finalizer_witness:
  "client_Get agents KAgent (exampleWorld runningAgent) (''ns'', ''a'')
     = (Inr runningAgent, record_call (Get KAgent (''ns'', ''a'')) (exampleWorld runningAgent))
   \<and> DeletionTimestamp runningAgent = Some 5
   \<and> ContainsFinalizer runningAgent finalizerName
   \<and> Phase (Status runningAgent) = AgentPhaseRunning
   \<and> map callShape (newCalls (exampleWorld runningAgent)
         (snd (Reconcile (exampleWorld runningAgent) (''ns'', ''a''))))
       = [(VGet, KAgent), (VStatusUpdate, KAgent), (VUpdate, KAgent)]
   \<and> map_option (Phase \<circ> Status)
        (agents (snd (cleanupResources
                   (record_call (Get KAgent (''ns'', ''a'')) (exampleWorld runningAgent))
                   runningAgent)) (''ns'', ''a''))
       = Some AgentPhaseFailed"
proof -
  let ?w = "exampleWorld runningAgent"
  have g: "client_Get agents KAgent ?w (''ns'', ''a'')
     = (Inr runningAgent, record_call (Get KAgent (''ns'', ''a'')) ?w)"
    by (simp add: client_Get_def exampleWorld_def next_fault_def Let_def)
  have d: "DeletionTimestamp runningAgent = Some 5"
    by (simp add: runningAgent_def)
  have f: "ContainsFinalizer runningAgent finalizerName"
    by (simp add: runningAgent_def ContainsFinalizer_def)
  have p: "Phase (Status runningAgent) = AgentPhaseRunning"
    by (simp add: runningAgent_def AgentPhaseRunning_def)
  have k: "key_of runningAgent = (''ns'', ''a'')"
    by (simp add: key_of_def runningAgent_def exampleAgent_def)
  have s: "next_fault (record_call (Get KAgent (''ns'', ''a'')) ?w) = None \<and>
           agents (record_call (Get KAgent (''ns'', ''a'')) ?w) (''ns'', ''a'') = Some runningAgent"
    by (simp add: next_fault_def record_call_def exampleWorld_def)
  show ?thesis
    using g d f p s teardown_sets_failed_before_removing_finalizer [OF g d f]
    by (simp add: k)
qed

section \<open>Status writes and the phase Running\<close>

text \<open>
  Claim C3, as amended. In every pass of \<^verbatim>\<open>AgentReconciler.Reconcile\<close>, in either of its
  two versions, whatever the cluster holds and whichever calls the server refuses, each
  status write carries a status in which phase \<open>Running\<close> comes with \<open>ready = desired\<close>
  and \<open>desired > 0\<close>. The status
  that \<^verbatim>\<open>updateAgentStatus\<close> writes mirrors the Deployment it read and has phase \<open>Running\<close>
  exactly when that Deployment reports as many ready replicas as it declares, and more
  than zero. The simple reconciler does not read the Deployment: a pass of it that ends
  with the five-minute requeue has, as its last call, written phase \<open>Running\<close> over the
  replica status the Agent already had.
\<close>

theorem status_writes_respect_running_invariant:
  "list_all statusWriteOk (newCalls w (snd (Reconcile w req)))
   \<and> list_all statusWriteOk (newCalls w (snd (basic_Reconcile w req)))
   \<and> (client_Get deployments KDeployment v (Namespace agent, Name agent) = (Inr d, v1)
        \<and> deploymentReplicas (deploymentSpec d) = Some n \<longrightarrow>
      updateAgentStatus v agent
        = client_Status_Update v1 (statusFromDeployment (clock v) agent d n)
      \<and> ReplicaStatus (Status (statusFromDeployment (clock v) agent d n)) =
           \<lparr>Ready = ReadyReplicas (deploymentStatus d), Desired = n,
            Available = AvailableReplicas (deploymentStatus d)\<rparr>
      \<and> (Phase (Status (statusFromDeployment (clock v) agent d n)) = AgentPhaseRunning)
           = (ReadyReplicas (deploymentStatus d) = n \<and> 0 <s n))
   \<and> (fst (simple_createAndRun agent u) = Inr res \<and> RequeueAfter res = Minute * 5 \<longrightarrow>
        last (calls (snd (simple_createAndRun agent u)))
          = StatusUpdate (simpleRunningAgent (clock u) agent))"
  using issues_newCalls [OF Reconcile_issues [of w req]]
    issues_newCalls [OF basic_Reconcile_issues [of w req]]
    updateAgentStatus_eq [of v agent d v1 n]
    statusFromDeployment_ReplicaStatus [of "clock v" agent d n]
    statusFromDeployment_Phase [of "clock v" agent d n]
    simple_createAndRun_success [of agent u res]
  by blast

theorem status_writes_respect_running_invariant_witness:
  "list_all statusWriteOk (newCalls convergedWorld (snd (Reconcile convergedWorld (''ns'', ''a''))))
   \<and> map callShape (newCalls convergedWorld (snd (Reconcile convergedWorld (''ns'', ''a''))))
       = [(VGet, KAgent), (VUpdate, KAgent), (VStatusUpdate, KAgent), (VGet, KSecret),
          (VGet, KConfigMap), (VCreate, KConfigMap), (VGet, KDeployment),
          (VUpdate, KDeployment), (VGet, KService), (VCreate, KService), (VGet, KHPA),
          (VGet, KIngress), (VGet, KDeployment), (VStatusUpdate, KAgent)]
   \<and> client_Get deployments KDeployment convergedWorld (Namespace exampleAgent, Name exampleAgent)
       = (Inr readyDeployment, record_call (Get KDeployment (''ns'', ''a'')) convergedWorld)
   \<and> deploymentReplicas (deploymentSpec readyDeployment) = Some 1
   \<and> Phase (Status (statusFromDeployment (clock convergedWorld) exampleAgent readyDeployment 1))
       = AgentPhaseRunning
   \<and> fst (simple_createAndRun exampleAgent (exampleWorld exampleAgent))
       = Inr \<lparr>Requeue = False, RequeueAfter = 300\<rparr>
   \<and> last (calls (snd (simple_createAndRun exampleAgent (exampleWorld exampleAgent))))
       = StatusUpdate (simpleRunningAgent 7 exampleAgent)"
proof -
  let ?w = convergedWorld
  have shape: "map callShape (newCalls ?w (snd (Reconcile ?w (''ns'', ''a''))))
       = [(VGet, KAgent), (VUpdate, KAgent), (VStatusUpdate, KAgent), (VGet, KSecret),
          (VGet, KConfigMap), (VCreate, KConfigMap), (VGet, KDeployment),
          (VUpdate, KDeployment), (VGet, KService), (VCreate, KService), (VGet, KHPA),
          (VGet, KIngress), (VGet, KDeployment), (VStatusUpdate, KAgent)]"
    by (simp add: Reconcile_def convergedWorld_def readyDeployment_def exampleWorld_def
     exampleAgent_def exampleSecret_def newCalls_def
     client_Get_def client_Create_def client_Update_def client_Delete_def client_Update_Agent_def
     client_Status_Update_def record_call_def next_fault_def key_of_def
     ContainsFinalizer_def AddFinalizer_def finalizerName_def reconcileActive_def initializeStatus_def
     reconcileChildren_def or_failed_def validateConfiguration_def validProviders_def
     validateSecretRef_def reconcileConfigMap_def reconcileDeployment_def reconcileService_def
     reconcileHPA_def reconcileIngress_def updateAgentStatus_def SetControllerReference_def
     buildConfigMap_def buildDeployment_def buildService_def buildHPA_def buildIngress_def
     statusFromDeployment_def
     Let_def notFound_def controllerRef_def agentLabels_def AgentPhasePending_def AgentPhaseRunning_def
     word_sless_alt)
  have g: "client_Get deployments KDeployment ?w (Namespace exampleAgent, Name exampleAgent)
       = (Inr readyDeployment, record_call (Get KDeployment (''ns'', ''a'')) ?w)"
    by (simp add: client_Get_def convergedWorld_def exampleWorld_def exampleAgent_def
          next_fault_def Let_def)
  have r: "deploymentReplicas (deploymentSpec readyDeployment) = Some 1"
    by (simp add: readyDeployment_def buildDeployment_def exampleAgent_def Let_def)
  have rr: "ReadyReplicas (deploymentStatus readyDeployment) = 1 \<and> (0::int32) <s 1"
    by (simp add: readyDeployment_def word_sless_alt)
  have sf: "fst (simple_createAndRun exampleAgent (exampleWorld exampleAgent))
       = Inr \<lparr>Requeue = False, RequeueAfter = 300\<rparr>"
    by (simp add: simple_createAndRun_def simpleRunningAgent_def createDeployment_def
          createService_def simpleDeployment_def simpleService_def simpleLabels_def
          exampleWorld_def exampleAgent_def
          client_Get_def client_Create_def client_Status_Update_def
          record_call_def next_fault_def key_of_def SetControllerReference_def controllerRef_def
          notFound_def Let_def Minute_def)
  have m: "RequeueAfter \<lparr>Requeue = False, RequeueAfter = 300\<rparr> = Minute * 5"
    by (simp add: Minute_def)
  have c: "clock (exampleWorld exampleAgent) = 7"
    by (simp add: exampleWorld_def)
  show ?thesis
    using status_writes_respect_running_invariant
      [where w = ?w and req = "(''ns'', ''a'')" and v = ?w and agent = exampleAgent
         and d = readyDeployment and ?v1.0 = "record_call (Get KDeployment (''ns'', ''a'')) ?w"
         and n = 1 and u = "exampleWorld exampleAgent"
         and res = "\<lparr>Requeue = False, RequeueAfter = 300\<rparr>"]
      shape g r rr sf m
    by (simp add: c)
qed

text \<open>
  The claim as stated fails on the simple reconciler: on a new Agent its first pass
  writes phase \<open>Running\<close> with \<open>ready = desired = 0\<close>, while the Deployment it has just
  created declares one replica and reports none ready.
\<close>

theorem simple_reconciler_writes_running_unobserved:
  "fst (simple_Reconcile (exampleWorld exampleAgent) (''ns'', ''a''))
     = Inr \<lparr>Requeue = False, RequeueAfter = 300\<rparr>
   \<and> \<not> list_all statusWriteOk
         (newCalls (exampleWorld exampleAgent)
            (snd (simple_Reconcile (exampleWorld exampleAgent) (''ns'', ''a''))))
   \<and> map_option (Phase \<circ> Status)
        (agents (snd (simple_Reconcile (exampleWorld exampleAgent) (''ns'', ''a''))) (''ns'', ''a''))
       = Some ''Running''
   \<and> map_option (ReplicaStatus \<circ> Status)
        (agents (snd (simple_Reconcile (exampleWorld exampleAgent) (''ns'', ''a''))) (''ns'', ''a''))
       = Some \<lparr>Ready = 0, Desired = 0, Available = 0\<rparr>
   \<and> map_option (ReadyReplicas \<circ> deploymentStatus)
        (deployments (snd (simple_Reconcile (exampleWorld exampleAgent) (''ns'', ''a'')))
           (''ns'', ''a''))
       = Some 0
   \<and> map_option (deploymentReplicas \<circ> deploymentSpec)
        (deployments (snd (simple_Reconcile (exampleWorld exampleAgent) (''ns'', ''a'')))
           (''ns'', ''a''))
       = Some (Some 1)"
  by (simp add: simple_Reconcile_def simple_createAndRun_def simpleRunningAgent_def
        createDeployment_def
        createService_def simpleDeployment_def simpleService_def simpleLabels_def
        initializeStatus_def exampleWorld_def exampleAgent_def exampleSecret_def
        client_Get_def client_Create_def client_Status_Update_def client_Update_Agent_def
        record_call_def next_fault_def key_of_def SetControllerReference_def controllerRef_def
        ContainsFinalizer_def AddFinalizer_def finalizerName_def
        notFound_def Let_def Minute_def newCalls_def runningInvariant_def
        AgentPhasePending_def AgentPhaseRunning_def word_sless_alt)

section \<open>The finalizer\<close>

text \<open>
  Claim C2, as amended. When the Agent fetched by a pass has no deletion timestamp and
  lacks the finalizer, the pass (of either reconciler) sends one update of the Agent with
  the finalizer appended and then goes on in the same pass with the remaining steps:
  the pass is that update followed by \<open>reconcileActive\<close> (status seed, validation, children,
  status refresh), and it ends there only if the update fails, with that error. No other
  call of the pass updates the Agent. When the deletion timestamp is set, no call of a
  pass of \<^verbatim>\<open>AgentReconciler.Reconcile\<close> is an update of the Agent carrying the finalizer.
\<close>

theorem finalizer_added_then_pass_continues:
  assumes get: "client_Get agents KAgent w req = (Inr agent, w1)"
  shows "(DeletionTimestamp agent = None \<and> \<not> ContainsFinalizer agent finalizerName \<longrightarrow>
            Reconcile w req =
              and_then (client_Update_Agent w1 (AddFinalizer agent finalizerName)) reconcileActive
          \<and> simple_Reconcile w req =
              and_then (client_Update_Agent w1 (AddFinalizer agent finalizerName))
                (\<lambda>agent w2. and_then (initializeStatus ''Creating agent resources'' agent w2)
                               simple_createAndRun)
          \<and> filter isAgentUpdate (newCalls w (snd (Reconcile w req)))
              = [Update (AgentObj (AddFinalizer agent finalizerName))]
          \<and> filter isAgentUpdate (newCalls w (snd (simple_Reconcile w req)))
              = [Update (AgentObj (AddFinalizer agent finalizerName))]
          \<and> Finalizers (AddFinalizer agent finalizerName) = Finalizers agent @ [finalizerName])
       \<and> (DeletionTimestamp agent \<noteq> None \<longrightarrow>
            \<not> list_ex writesFinalizer (newCalls w (snd (Reconcile w req))))"
proof -
  have c1: "calls w1 = calls w @ [Get KAgent req]"
    using get client_Get_calls by blast
  let ?a = "AddFinalizer agent finalizerName"
  let ?simple = "\<lambda>agent w2. and_then (initializeStatus ''Creating agent resources'' agent w2)
                               simple_createAndRun"
  {
    assume nd: "DeletionTimestamp agent = None" and nf: "\<not> ContainsFinalizer agent finalizerName"
    have R: "Reconcile w req = and_then (client_Update_Agent w1 ?a) reconcileActive"
      using get nd nf by (simp add: Reconcile_def)
    have d: "DeletionTimestamp ?a = None"
      using nd by (simp add: AddFinalizer_def)
    have S: "simple_Reconcile w req = and_then (client_Update_Agent w1 ?a) ?simple"
    proof (cases "client_Update_Agent w1 ?a")
      case (Pair r w2)
      then show ?thesis
        using get nf d client_Update_Agent_DeletionTimestamp [of w1 ?a _ w2]
        by (cases r) (auto simp: simple_Reconcile_def)
    qed
    have u1: "filter isAgentUpdate (newCalls w (snd (Reconcile w req))) = [Update (AgentObj ?a)]"
      unfolding R by (rule one_agent_update [OF c1]) (rule reconcileActive_no_agent_update)
    have u2: "filter isAgentUpdate (newCalls w (snd (simple_Reconcile w req)))
                = [Update (AgentObj ?a)]"
      unfolding S by (rule one_agent_update [OF c1]) (rule simple_active_issues)
    have "Finalizers ?a = Finalizers agent @ [finalizerName]"
      using nf by (simp add: AddFinalizer_def ContainsFinalizer_def)
    note R S u1 u2 this
  }
  moreover
  {
    fix t assume "DeletionTimestamp agent = Some t"
    from teardown_calls [OF get this]
    have "\<not> list_ex writesFinalizer (newCalls w (snd (Reconcile w req)))"
      by simp
  }
  ultimately show ?thesis by auto
qed

theorem finalizer_added_then_pass_continues_witness:
  "client_Get agents KAgent (exampleWorld exampleAgent) (''ns'', ''a'')
     = (Inr exampleAgent, record_call (Get KAgent (''ns'', ''a'')) (exampleWorld exampleAgent))
   \<and> DeletionTimestamp exampleAgent = None
   \<and> \<not> ContainsFinalizer exampleAgent finalizerName
   \<and> filter isAgentUpdate
        (newCalls (exampleWorld exampleAgent)
           (snd (Reconcile (exampleWorld exampleAgent) (''ns'', ''a''))))
       = [Update (AgentObj (AddFinalizer exampleAgent finalizerName))]
   \<and> Finalizers (AddFinalizer exampleAgent finalizerName) = [finalizerName]"
proof -
  let ?w = "exampleWorld exampleAgent"
  have g: "client_Get agents KAgent ?w (''ns'', ''a'')
     = (Inr exampleAgent, record_call (Get KAgent (''ns'', ''a'')) ?w)"
    by (simp add: client_Get_def exampleWorld_def next_fault_def Let_def)
  have d: "DeletionTimestamp exampleAgent = None"
    by (simp add: exampleAgent_def)
  have f: "\<not> ContainsFinalizer exampleAgent finalizerName"
    by (simp add: exampleAgent_def ContainsFinalizer_def)
  have e: "Finalizers exampleAgent = []"
    by (simp add: exampleAgent_def)
  from finalizer_added_then_pass_continues [OF g] d f
  have "filter isAgentUpdate (newCalls ?w (snd (Reconcile ?w (''ns'', ''a''))))
          = [Update (AgentObj (AddFinalizer exampleAgent finalizerName))]
        \<and> Finalizers (AddFinalizer exampleAgent finalizerName)
          = Finalizers exampleAgent @ [finalizerName]"
    by blast
  then show ?thesis
    using g d f by (simp add: e)
qed

text \<open>
  The claim as stated fails: on a new Agent the pass that adds the finalizer also seeds
  the status, creates ConfigMap, Deployment and Service, and ends with the five-minute
  requeue.
\<close>

theorem finalizer_pass_reconciles_children:
  "DeletionTimestamp exampleAgent = None
   \<and> \<not> ContainsFinalizer exampleAgent finalizerName
   \<and> agents (exampleWorld exampleAgent) (''ns'', ''a'') = Some exampleAgent
   \<and> fst (Reconcile (exampleWorld exampleAgent) (''ns'', ''a''))
       = Inr \<lparr>Requeue = False, RequeueAfter = 300\<rparr>
   \<and> map callShape (newCalls (exampleWorld exampleAgent)
         (snd (Reconcile (exampleWorld exampleAgent) (''ns'', ''a''))))
       = [(VGet, KAgent), (VUpdate, KAgent), (VStatusUpdate, KAgent), (VGet, KSecret),
          (VGet, KConfigMap), (VCreate, KConfigMap), (VGet, KDeployment),
          (VCreate, KDeployment), (VGet, KService), (VCreate, KService), (VGet, KHPA),
          (VGet, KIngress), (VGet, KDeployment), (VStatusUpdate, KAgent)]"
  by (simp add: Reconcile_def exampleWorld_def
     exampleAgent_def exampleSecret_def newCalls_def
     client_Get_def client_Create_def client_Update_def client_Delete_def client_Update_Agent_def
     client_Status_Update_def record_call_def next_fault_def key_of_def
     ContainsFinalizer_def AddFinalizer_def finalizerName_def reconcileActive_def initializeStatus_def
     reconcileChildren_def or_failed_def validateConfiguration_def validProviders_def
     validateSecretRef_def reconcileConfigMap_def reconcileDeployment_def reconcileService_def
     reconcileHPA_def reconcileIngress_def updateAgentStatus_def SetControllerReference_def
     buildConfigMap_def buildDeployment_def buildService_def buildHPA_def buildIngress_def
     statusFromDeployment_def Minute_def
     Let_def notFound_def controllerRef_def agentLabels_def AgentPhasePending_def AgentPhaseRunning_def
     word_sless_alt)

text \<open>
  The finalizer block of the simple reconciler comes before its deletion check and does
  not look at the deletion timestamp: on an Agent in deletion that lacks the finalizer,
  the pass first sends an update that adds it and then one that removes it.
\<close>

lemma simple_reconciler_adds_finalizer_in_deletion:
  "DeletionTimestamp heldAgent = Some 5
   \<and> map callShape (newCalls (exampleWorld heldAgent)
         (snd (simple_Reconcile (exampleWorld heldAgent) (''ns'', ''a''))))
       = [(VGet, KAgent), (VUpdate, KAgent), (VUpdate, KAgent)]
   \<and> map writesFinalizer (newCalls (exampleWorld heldAgent)
         (snd (simple_Reconcile (exampleWorld heldAgent) (''ns'', ''a''))))
       = [False, True, False]"
  by (simp add: simple_Reconcile_def heldAgent_def exampleWorld_def exampleAgent_def
        client_Get_def client_Update_Agent_def record_call_def next_fault_def key_of_def
        ContainsFinalizer_def AddFinalizer_def RemoveFinalizer_def finalizerName_def
        newCalls_def Let_def)

section \<open>Failed validation and failed credential check\<close>

text \<open>
  Claim C4. Take a pass of \<^verbatim>\<open>Reconcile\<close> that has fetched the Agent, passed the finalizer
  block and the status seed, and in which \<^verbatim>\<open>validateConfiguration\<close> returns an error, or
  \<^verbatim>\<open>validateSecretRef\<close> does (the Secret cannot be read, or lacks the key). Then the pass
  returns no error and a requeue after two minutes; its last call is a status write of
  the Agent with phase \<open>Failed\<close>, the failure text as message, and a \<open>Degraded\<close> condition
  of status \<open>True\<close> whose message is that text; no call of the pass is a create and the
  Deployment store is unchanged; and when the server accepts the write, the stored Agent
  has that status.
\<close>

theorem failed_validation_sets_failed_and_requeues:
  assumes get: "client_Get agents KAgent w req = (Inr a0, w0)"
    and nd: "DeletionTimestamp a0 = None"
    and fin: "(if \<not> ContainsFinalizer a0 finalizerName
               then client_Update_Agent w0 (AddFinalizer a0 finalizerName)
               else (Inr a0, w0)) = (Inr a1, w1)"
    and seed: "initializeStatus ''Initializing agent deployment'' a1 w1 = (Inr agent, w2)"
    and fail: "validateConfiguration agent = Inl err \<and> w3 = w2
                 \<and> msg = ''Configuration validation failed: '' @ error_string err
             \<or> validateConfiguration agent = Inr () \<and> validateSecretRef w2 agent = (Inl err, w3)
                 \<and> msg = ''Secret validation failed: '' @ error_string err"
  shows "fst (Reconcile w req) = Inr \<lparr>Requeue = False, RequeueAfter = 2 * Minute\<rparr>
       \<and> newCalls w3 (snd (Reconcile w req)) = [StatusUpdate (failedAgent (clock w) agent msg)]
       \<and> Phase (Status (failedAgent (clock w) agent msg)) = AgentPhaseFailed
       \<and> Message (Status (failedAgent (clock w) agent msg)) = msg
       \<and> map_option cStatus (find (\<lambda>c. cType c = AgentConditionDegraded)
            (Conditions (Status (failedAgent (clock w) agent msg)))) = Some ConditionTrue
       \<and> map_option cMessage (find (\<lambda>c. cType c = AgentConditionDegraded)
            (Conditions (Status (failedAgent (clock w) agent msg)))) = Some msg
       \<and> \<not> list_ex isCreate (newCalls w (snd (Reconcile w req)))
       \<and> deployments (snd (Reconcile w req)) = deployments w
       \<and> (next_fault w3 = None \<and> agents w3 (key_of agent) = Some stored \<longrightarrow>
            agents (snd (Reconcile w req)) (key_of agent)
              = Some (stored\<lparr>Status := Status (failedAgent (clock w) agent msg)\<rparr>))"
proof -
  let ?P = "\<lambda>c. \<not> isCreate c"
  have R: "Reconcile w req = updateStatusFailed w3 agent msg"
    using get nd fin seed reconcileChildren_failed [OF fail]
    by (simp add: Reconcile_def reconcileActive_def)
  have w0: "w0 = record_call (Get KAgent req) w"
    using get client_Get_snd [of agents KAgent w req] by simp
  have i0: "issues ?P w w0" by (simp add: w0)
  have i1: "issues ?P w0 w1"
    using fin client_Update_Agent_issues [of ?P "AddFinalizer a0 finalizerName" w0]
    by (auto split: if_splits)
  have i2: "issues ?P w1 w2"
    using seed initializeStatus_issues_any [of ?P w1 "''Initializing agent deployment''" a1]
    by simp
  have i3: "issues ?P w2 w3"
    using fail validateSecretRef_snd [of w2 agent] by auto
  have i03: "issues ?P w w3"
    using i0 i1 i2 i3 by (blast intro: issues_trans)
  have k: "clock w3 = clock w"
    using i03 by (rule issues_clock)
  have S: "snd (Reconcile w req) = snd (client_Status_Update w3 (failedAgent (clock w) agent msg))"
    by (simp add: R updateStatusFailed_snd k)
  have i4: "issues ?P w3 (snd (Reconcile w req))"
    unfolding S by (rule client_Status_Update_issues) simp
  have c: "newCalls w3 (snd (Reconcile w req)) = [StatusUpdate (failedAgent (clock w) agent msg)]"
    unfolding S by (rule newCalls_append) (rule client_Status_Update_calls)
  have nc: "\<not> list_ex isCreate (newCalls w (snd (Reconcile w req)))"
    using issues_newCalls [OF issues_trans [OF i03 i4]]
    by (simp add: list_all_iff list_ex_iff)
  have d: "deployments (snd (Reconcile w req)) = deployments w"
  proof -
    have "deployments w1 = deployments w0"
    proof (cases "ContainsFinalizer a0 finalizerName")
      case True
      then show ?thesis using fin by simp
    next
      case False
      then have "w1 = snd (client_Update_Agent w0 (AddFinalizer a0 finalizerName))"
        using fin by simp
      then show ?thesis by simp
    qed
    moreover have "deployments w2 = deployments w1"
    proof -
      have "w2 = snd (initializeStatus ''Initializing agent deployment'' a1 w1)"
        using seed by simp
      then show ?thesis by simp
    qed
    moreover have "deployments w3 = deployments w2"
      using fail validateSecretRef_snd [of w2 agent] by auto
    ultimately show ?thesis by (simp add: S w0)
  qed
  have s: "next_fault w3 = None \<and> agents w3 (key_of agent) = Some stored \<longrightarrow>
            agents (snd (Reconcile w req)) (key_of agent)
              = Some (stored\<lparr>Status := Status (failedAgent (clock w) agent msg)\<rparr>)"
    unfolding S
    using client_Status_Update_stores [of w3 "failedAgent (clock w) agent msg" stored]
    by simp
  have f: "fst (Reconcile w req) = Inr \<lparr>Requeue = False, RequeueAfter = 2 * Minute\<rparr>"
    by (simp add: R Minute_def)
  from f c nc d s failedAgent_Degraded [of "clock w" agent msg]
  show ?thesis
    by (intro conjI) simp_all
qed

theorem failed_validation_sets_failed_and_requeues_witness:
  "fst (Reconcile worldWithoutSecret (''ns'', ''a''))
     = Inr \<lparr>Requeue = False, RequeueAfter = 120\<rparr>
   \<and> map callShape
        (newCalls (record_call (Get KSecret (''ns'', ''s''))
                    (record_call (Get KAgent (''ns'', ''a'')) worldWithoutSecret))
           (snd (Reconcile worldWithoutSecret (''ns'', ''a''))))
       = [(VStatusUpdate, KAgent)]
   \<and> deployments (snd (Reconcile worldWithoutSecret (''ns'', ''a''))) (''ns'', ''a'') = None
   \<and> map_option (Phase \<circ> Status)
        (agents (snd (Reconcile worldWithoutSecret (''ns'', ''a''))) (''ns'', ''a''))
       = Some ''Failed''
   \<and> map_option (map cStatus \<circ> Conditions \<circ> Status)
        (agents (snd (Reconcile worldWithoutSecret (''ns'', ''a''))) (''ns'', ''a''))
       = Some [''True'']"
proof -
  let ?w = worldWithoutSecret
  let ?k = "(''ns'', ''a'')"
  let ?wa = "record_call (Get KAgent ?k) ?w"
  let ?wc = "record_call (Get KSecret (''ns'', ''s'')) ?wa"
  let ?err = "Errorf (''failed to get secret s: secrets '' @ fmt_q ''s'' @ '' not found'')"
  let ?msg = "''Secret validation failed: '' @ error_string ?err"
  have get: "client_Get agents KAgent ?w ?k = (Inr pendingAgent, ?wa)"
    by (simp add: client_Get_def worldWithoutSecret_def exampleWorld_def next_fault_def Let_def)
  have nd: "DeletionTimestamp pendingAgent = None"
    by (simp add: pendingAgent_def exampleAgent_def)
  have fin: "(if \<not> ContainsFinalizer pendingAgent finalizerName
               then client_Update_Agent ?wa (AddFinalizer pendingAgent finalizerName)
               else (Inr pendingAgent, ?wa)) = (Inr pendingAgent, ?wa)"
    by (simp add: pendingAgent_def ContainsFinalizer_def)
  have seed: "initializeStatus ''Initializing agent deployment'' pendingAgent ?wa
                = (Inr pendingAgent, ?wa)"
    by (simp add: initializeStatus_def pendingAgent_def)
  have vc: "validateConfiguration pendingAgent = Inr ()"
    by (simp add: validateConfiguration_def pendingAgent_def exampleAgent_def validProviders_def
          word_sless_alt)
  have vs: "validateSecretRef ?wa pendingAgent = (Inl ?err, ?wc)"
    by (simp add: validateSecretRef_def client_Get_def pendingAgent_def exampleAgent_def
          worldWithoutSecret_def exampleWorld_def record_call_def next_fault_def Let_def
          notFound_def)
  have fail: "validateConfiguration pendingAgent = Inl ?err \<and> ?wc = ?wa
                 \<and> ?msg = ''Configuration validation failed: '' @ error_string ?err
             \<or> validateConfiguration pendingAgent = Inr ()
                 \<and> validateSecretRef ?wa pendingAgent = (Inl ?err, ?wc)
                 \<and> ?msg = ''Secret validation failed: '' @ error_string ?err"
    using vc vs by simp
  have st: "next_fault ?wc = None \<and> agents ?wc (key_of pendingAgent) = Some pendingAgent"
    by (simp add: next_fault_def record_call_def worldWithoutSecret_def exampleWorld_def
          key_of_def pendingAgent_def exampleAgent_def)
  have k: "key_of pendingAgent = ?k"
    by (simp add: key_of_def pendingAgent_def exampleAgent_def)
  have dw: "deployments ?w ?k = None"
    by (simp add: worldWithoutSecret_def exampleWorld_def)
  have cs: "calls ?wc = calls ?w @ [Get KAgent ?k, Get KSecret (''ns'', ''s'')]"
    by (simp add: record_call_def)
  have cond: "map cStatus (Conditions (Status (failedAgent (clock ?w) pendingAgent ?msg)))
                = [''True'']"
    by (simp add: failedAgent_def pendingAgent_def Let_def ConditionTrue_def)
  note T = failed_validation_sets_failed_and_requeues
    [OF get nd fin seed fail, where stored = pendingAgent]
  have f: "fst (Reconcile ?w ?k) = Inr \<lparr>Requeue = False, RequeueAfter = 2 * Minute\<rparr>"
    using T by simp
  have c: "newCalls ?wc (snd (Reconcile ?w ?k))
              = [StatusUpdate (failedAgent (clock ?w) pendingAgent ?msg)]"
    using T by simp
  have d: "deployments (snd (Reconcile ?w ?k)) = deployments ?w"
    using T by simp
  have s: "agents (snd (Reconcile ?w ?k)) ?k
              = Some (pendingAgent\<lparr>Status := Status (failedAgent (clock ?w) pendingAgent ?msg)\<rparr>)"
    using T st by (simp add: k)
  show ?thesis
    using f c d s dw cond
    by (simp add: Minute_def AgentPhaseFailed_def)
qed

section \<open>The HPA of an Agent with unset replicas\<close>

text \<open>
  Claim C9. For an Agent whose \<open>spec.replicas\<close> is nil, \<^verbatim>\<open>buildHPA\<close> gives \<open>minReplicas = 1\<close>
  and \<open>maxReplicas = 10\<close>, although \<^verbatim>\<open>buildDeployment\<close> gives the Deployment the default of
  one replica. \<^verbatim>\<open>reconcileHPA\<close> never issues a delete for such an Agent; when the server
  answers its two calls, it succeeds after a lookup followed by a create (no HPA
  stored) or an update (one stored), and the HPA stored afterwards has the built spec.
\<close>

theorem reconcileHPA_with_unset_replicas:
  assumes "Replicas (Spec agent) = None"
  shows "MinReplicas (hpaSpec (buildHPA agent)) = Some 1
       \<and> MaxReplicas (hpaSpec (buildHPA agent)) = 10
       \<and> deploymentReplicas (deploymentSpec (buildDeployment agent)) = Some 1
       \<and> \<not> list_ex isDelete (newCalls w (snd (reconcileHPA w agent)))
       \<and> (twoAnswers w \<and> storedUnder (hpas w) (hpaKey agent) \<longrightarrow>
            fst (reconcileHPA w agent) = Inr ()
          \<and> map callShape (newCalls w (snd (reconcileHPA w agent)))
              = [(VGet, KHPA), (if hpas w (hpaKey agent) = None then VCreate else VUpdate, KHPA)]
          \<and> map_option hpaSpec (hpas (snd (reconcileHPA w agent)) (hpaKey agent))
              = Some (hpaSpec (buildHPA agent)))"
proof -
  have b: "MinReplicas (hpaSpec (buildHPA agent)) = Some 1
       \<and> MaxReplicas (hpaSpec (buildHPA agent)) = 10
       \<and> deploymentReplicas (deploymentSpec (buildDeployment agent)) = Some 1"
    using assms by (simp add: buildHPA_def buildDeployment_def Let_def)
  have "issues (\<lambda>c. \<not> isDelete c) w (snd (reconcileHPA w agent))"
    using assms
    unfolding reconcileHPA_def
    by (auto split: prod.splits sum.splits option.splits
         dest!: arg_cong [where f = snd] simp: client_Get_snd
         intro!: issues_trans [OF issues_record_call client_Create_issues]
           issues_trans [OF issues_record_call client_Update_issues])
  then have d: "\<not> list_ex isDelete (newCalls w (snd (reconcileHPA w agent)))"
    by (auto dest!: issues_newCalls simp: list_all_iff list_ex_iff)
  have "twoAnswers w \<and> storedUnder (hpas w) (hpaKey agent) \<longrightarrow>
            fst (reconcileHPA w agent) = Inr ()
          \<and> map callShape (newCalls w (snd (reconcileHPA w agent)))
              = [(VGet, KHPA), (if hpas w (hpaKey agent) = None then VCreate else VUpdate, KHPA)]
          \<and> map_option hpaSpec (hpas (snd (reconcileHPA w agent)) (hpaKey agent))
              = Some (hpaSpec (buildHPA agent))"
    using assms reconcileHPA_answered [of w agent]
    by (auto split: option.splits)
  with b d show ?thesis by blast
qed

theorem reconcileHPA_with_unset_replicas_witness:
  "Replicas (Spec (withReplicas None exampleAgent)) = None
   \<and> twoAnswers (exampleWorld (withReplicas None exampleAgent))
   \<and> storedUnder (hpas (exampleWorld (withReplicas None exampleAgent)))
        (hpaKey (withReplicas None exampleAgent))
   \<and> map callShape (newCalls (exampleWorld (withReplicas None exampleAgent))
        (snd (reconcileHPA (exampleWorld (withReplicas None exampleAgent))
                (withReplicas None exampleAgent))))
       = [(VGet, KHPA), (VCreate, KHPA)]
   \<and> map_option (MinReplicas \<circ> hpaSpec)
        (hpas (snd (reconcileHPA (exampleWorld (withReplicas None exampleAgent))
                      (withReplicas None exampleAgent))) (''ns'', ''a-hpa''))
       = Some (Some 1)
   \<and> map_option (MaxReplicas \<circ> hpaSpec)
        (hpas (snd (reconcileHPA (exampleWorld (withReplicas None exampleAgent))
                      (withReplicas None exampleAgent))) (''ns'', ''a-hpa''))
       = Some 10"
proof -
  let ?a = "withReplicas None exampleAgent"
  let ?w = "exampleWorld ?a"
  have r: "Replicas (Spec ?a) = None"
    by (simp add: withReplicas_def)
  have t: "twoAnswers ?w"
    by (simp add: twoAnswers_def next_fault_def exampleWorld_def)
  have h: "hpas ?w (hpaKey ?a) = None"
    by (simp add: exampleWorld_def)
  have s: "storedUnder (hpas ?w) (hpaKey ?a)"
    by (simp add: storedUnder_def h)
  have k: "hpaKey ?a = (''ns'', ''a-hpa'')"
    by (simp add: hpaKey_def withReplicas_def exampleAgent_def)
  note T = reconcileHPA_with_unset_replicas [OF r, of ?w]
  have c: "map callShape (newCalls ?w (snd (reconcileHPA ?w ?a))) = [(VGet, KHPA), (VCreate, KHPA)]"
    using T t s h by simp
  have m: "map_option hpaSpec (hpas (snd (reconcileHPA ?w ?a)) (''ns'', ''a-hpa''))
             = Some (hpaSpec (buildHPA ?a))"
    using T t s by (simp add: k)
  have "MinReplicas (hpaSpec (buildHPA ?a)) = Some 1 \<and> MaxReplicas (hpaSpec (buildHPA ?a)) = 10"
    using T by simp
  then have mm: "map_option (MinReplicas \<circ> hpaSpec) (hpas (snd (reconcileHPA ?w ?a)) (''ns'', ''a-hpa''))
             = Some (Some 1)
        \<and> map_option (MaxReplicas \<circ> hpaSpec) (hpas (snd (reconcileHPA ?w ?a)) (''ns'', ''a-hpa''))
             = Some 10"
    using m by (cases "hpas (snd (reconcileHPA ?w ?a)) (''ns'', ''a-hpa'')") auto
  show ?thesis
    using r t s c mm by simp
qed

section \<open>Conditional children after a successful pass\<close>

text \<open>
  What a successful pass leaves when the server answers every call from its store. Take
  a pass of \<^verbatim>\<open>Reconcile\<close> on a stored Agent that ends with the five-minute requeue, in a
  cluster in which an object stored under the HPA name or the Ingress name of the Agent
  carries that name. Afterwards the HPA \<open><agent>-hpa\<close> exists if and only if \<open>replicas\<close>
  is not 1 (which for a validated Agent means unset or greater than 1), and the Ingress
  \<open><agent>-ingress\<close> exists if and only if \<open>serviceType\<close> is \<open>LoadBalancer\<close>. In the delete
  branches a lookup that reports not-found ends the method with success and no further
  call.
\<close>

lemma conditional_children_when_answered:
  assumes nf: "noFaults w"
    and st: "agents w req = Some agent"
    and ok: "Reconcile w req = (Inr res, w')"
    and p: "RequeueAfter res = Minute * 5"
    and sh: "storedUnder (hpas w) (hpaKey agent)"
    and si: "storedUnder (ingresses w) (ingressKey agent)"
  shows "(hpas w' (hpaKey agent) \<noteq> None)
           = (case Replicas (Spec agent) of None \<Rightarrow> True | Some r \<Rightarrow> 1 <s r)
       \<and> (ingresses w' (ingressKey agent) \<noteq> None)
           = (ServiceType (Spec agent) = ''LoadBalancer'')
       \<and> (Replicas (Spec agent) = Some 1 \<and> next_fault v = None \<and> hpas v (hpaKey agent) = None
           \<longrightarrow> reconcileHPA v agent = (Inr (), record_call (Get KHPA (hpaKey agent)) v))
       \<and> (ServiceType (Spec agent) \<noteq> ''LoadBalancer'' \<and> next_fault v = None
            \<and> ingresses v (ingressKey agent) = None
           \<longrightarrow> reconcileIngress v agent
                = (Inr (), record_call (Get KIngress (ingressKey agent)) v))"
proof -
  have get: "client_Get agents KAgent w req = (Inr agent, record_call (Get KAgent req) w)"
    using nf st by (simp add: client_Get_def noFaults_def next_fault_def Let_def)
  from Reconcile_success [OF ok p get]
  obtain a w2 where a: "Spec a = Spec agent" "Name a = Name agent" "Namespace a = Namespace agent"
    and u2: "untouched w w2" and C: "reconcileChildren a w2 = (Inr res, w')"
    by blast
  from reconcileChildren_success [OF C p]
  obtain w3 w4 w5 w6 w7 w8 where v: "validateConfiguration a = Inr ()"
    and s3: "validateSecretRef w2 a = (Inr (), w3)"
    and s4: "reconcileConfigMap w3 a = (Inr (), w4)"
    and s5: "reconcileDeployment w4 a = (Inr (), w5)"
    and s6: "reconcileService w5 a = (Inr (), w6)"
    and s7: "reconcileHPA w6 a = (Inr (), w7)"
    and s8: "reconcileIngress w7 a = (Inr (), w8)"
    and s9: "updateAgentStatus w8 a = (Inr (), w')"
    by blast
  have k: "hpaKey a = hpaKey agent" "ingressKey a = ingressKey agent"
    using a by (simp_all add: hpaKey_def ingressKey_def)
  have u3: "untouched w2 w3" using untouched_validateSecretRef [of w2 a] s3 by simp
  have u4: "untouched w3 w4" using untouched_reconcileConfigMap [of w3 a] s4 by simp
  have u5: "untouched w4 w5" using untouched_reconcileDeployment [of w4 a] s5 by simp
  have u6: "untouched w5 w6" using untouched_reconcileService [of w5 a] s6 by simp
  have u06: "untouched w w6"
    using u2 u3 u4 u5 u6 by (blast intro: untouched_trans)
  have t6: "twoAnswers w6"
    using nf u06 by (auto intro: noFaults_twoAnswers simp: untouched_def)
  have sh6: "storedUnder (hpas w6) (hpaKey a)"
    using sh u06 k by (simp add: untouched_def)
  have h7: "hpas w7 = (if Replicas (Spec a) = Some 1 then (hpas w6)(hpaKey a := None)
            else (hpas w6)(hpaKey a \<mapsto>
                   (case hpas w6 (hpaKey a) of
                      None \<Rightarrow> ownedHPA a
                    | Some found \<Rightarrow> found\<lparr>hpaSpec := hpaSpec (buildHPA a)\<rparr>)))"
    using reconcileHPA_answered [OF t6 sh6] s7 by simp
  have k7: "ingresses w7 = ingresses w \<and> faults w7 = faults w"
    using reconcileHPA_keeps [of w6 a] s7 u06 by (simp add: untouched_def)
  have t7: "twoAnswers w7"
    using nf k7 by (auto intro: noFaults_twoAnswers)
  have si7: "storedUnder (ingresses w7) (ingressKey a)"
    using si k7 k by simp
  have i8: "ingresses w8 = (if ServiceType (Spec a) \<noteq> ''LoadBalancer''
            then (ingresses w7)(ingressKey a := None)
            else (ingresses w7)(ingressKey a \<mapsto>
                   (case ingresses w7 (ingressKey a) of
                      None \<Rightarrow> ownedIngress a
                    | Some found \<Rightarrow> found\<lparr>ingressSpec := ingressSpec (buildIngress a)\<rparr>)))"
    using reconcileIngress_answered [OF t7 si7] s8 by simp
  have h8: "hpas w8 = hpas w7"
    using reconcileIngress_keeps [of w7 a] s8 by simp
  have u9: "untouched w8 w'"
    using untouched_updateAgentStatus [of w8 a] s9 by simp
  have H: "(hpas w' (hpaKey agent) \<noteq> None) = (Replicas (Spec agent) \<noteq> Some 1)"
    using u9 h8 h7 k a by (simp add: untouched_def)
  have I: "(ingresses w' (ingressKey agent) \<noteq> None) = (ServiceType (Spec agent) = ''LoadBalancer'')"
    using u9 i8 k a by (simp add: untouched_def)
  have V: "(Replicas (Spec agent) \<noteq> Some 1) =
     (case Replicas (Spec agent) of None \<Rightarrow> True | Some r \<Rightarrow> 1 <s r)"
    using validated_replicas [OF v] a by simp
  have N1: "Replicas (Spec agent) = Some 1 \<and> next_fault v = None \<and> hpas v (hpaKey agent) = None
           \<longrightarrow> reconcileHPA v agent = (Inr (), record_call (Get KHPA (hpaKey agent)) v)"
    by (simp add: reconcileHPA_def client_Get_def hpaKey_def Let_def)
  have N2: "ServiceType (Spec agent) \<noteq> ''LoadBalancer'' \<and> next_fault v = None
            \<and> ingresses v (ingressKey agent) = None
           \<longrightarrow> reconcileIngress v agent
                = (Inr (), record_call (Get KIngress (ingressKey agent)) v)"
    by (simp add: reconcileIngress_def client_Get_def ingressKey_def Let_def)
  show ?thesis
    using H I V N1 N2 by blast
qed

lemma conditional_children_when_answered_example:
  "noFaults (exampleWorld (withReplicas (Some 2) exampleAgent))
   \<and> agents (exampleWorld (withReplicas (Some 2) exampleAgent)) (''ns'', ''a'')
       = Some (withReplicas (Some 2) exampleAgent)
   \<and> fst (Reconcile (exampleWorld (withReplicas (Some 2) exampleAgent)) (''ns'', ''a''))
       = Inr \<lparr>Requeue = False, RequeueAfter = 300\<rparr>
   \<and> hpas (snd (Reconcile (exampleWorld (withReplicas (Some 2) exampleAgent)) (''ns'', ''a'')))
        (''ns'', ''a-hpa'') \<noteq> None
   \<and> ingresses (snd (Reconcile (exampleWorld (withReplicas (Some 2) exampleAgent)) (''ns'', ''a'')))
        (''ns'', ''a-ingress'') = None"
proof -
  let ?a = "withReplicas (Some 2) exampleAgent"
  let ?w = "exampleWorld ?a"
  let ?k = "(''ns'', ''a'')"
  have nf: "noFaults ?w"
    by (simp add: noFaults_def exampleWorld_def)
  have st: "agents ?w ?k = Some ?a"
    by (simp add: exampleWorld_def)
  have f: "fst (Reconcile ?w ?k) = Inr \<lparr>Requeue = False, RequeueAfter = 300\<rparr>"
    by (simp add: Reconcile_def exampleWorld_def withReplicas_def
     exampleAgent_def exampleSecret_def
     client_Get_def client_Create_def client_Update_def client_Delete_def client_Update_Agent_def
     client_Status_Update_def record_call_def next_fault_def key_of_def
     ContainsFinalizer_def AddFinalizer_def finalizerName_def reconcileActive_def initializeStatus_def
     reconcileChildren_def or_failed_def validateConfiguration_def validProviders_def
     validateSecretRef_def reconcileConfigMap_def reconcileDeployment_def reconcileService_def
     reconcileHPA_def reconcileIngress_def updateAgentStatus_def SetControllerReference_def
     buildConfigMap_def buildDeployment_def buildService_def buildHPA_def buildIngress_def
     statusFromDeployment_def Minute_def
     Let_def notFound_def controllerRef_def agentLabels_def AgentPhasePending_def AgentPhaseRunning_def
     word_sless_alt)
  then have ok: "Reconcile ?w ?k = (Inr \<lparr>Requeue = False, RequeueAfter = 300\<rparr>,
                                  snd (Reconcile ?w ?k))"
    by (metis prod.collapse)
  have p: "RequeueAfter \<lparr>Requeue = False, RequeueAfter = 300\<rparr> = Minute * 5"
    by (simp add: Minute_def)
  have sh: "storedUnder (hpas ?w) (hpaKey ?a)"
    by (simp add: storedUnder_def exampleWorld_def)
  have si: "storedUnder (ingresses ?w) (ingressKey ?a)"
    by (simp add: storedUnder_def exampleWorld_def)
  have k: "hpaKey ?a = (''ns'', ''a-hpa'')" "ingressKey ?a = (''ns'', ''a-ingress'')"
    by (simp_all add: hpaKey_def ingressKey_def withReplicas_def exampleAgent_def)
  have r: "Replicas (Spec ?a) = Some 2" "ServiceType (Spec ?a) = ''ClusterIP''"
    by (simp_all add: withReplicas_def exampleAgent_def)
  have two: "(1::int32) <s 2"
    by (simp add: word_sless_alt)
  note T = conditional_children_when_answered [OF nf st ok p sh si]
  have "hpas (snd (Reconcile ?w ?k)) (''ns'', ''a-hpa'') \<noteq> None
      \<and> ingresses (snd (Reconcile ?w ?k)) (''ns'', ''a-ingress'') = None"
    using T two by (simp add: k r)
  then show ?thesis
    using nf st f by simp
qed

text \<open>
  Claim C5. The rule "the HPA exists if and only if replicas are greater than 1, the
  Ingress if and only if the service type is LoadBalancer" is broken by a successful pass
  in two ways.
  \<^item> The delete branches of \<^verbatim>\<open>reconcileHPA\<close> and \<^verbatim>\<open>reconcileIngress\<close> return \<^verbatim>\<open>nil\<close> on every
    error of the lookup, not only on not-found. On \<open>scaledDownWorld\<close> (one replica,
    ClusterIP) a pass whose calls are all answered deletes the stale HPA and the stale
    Ingress; a pass in which the two lookups time out issues no delete, ends with the
    five-minute requeue all the same, and leaves both objects in the cluster.
  \<^item> The guard of the delete branch is \<^verbatim>\<open>Replicas != nil && *Replicas == 1\<close>. An Agent that
    passes validation with \<open>replicas\<close> unset gets a Deployment with the default of one
    replica and, from the same pass, an HPA (minimum 1, maximum 10).
\<close>

theorem conditional_children_rule_broken:
  "Replicas (Spec exampleAgent) = Some 1
   \<and> ServiceType (Spec exampleAgent) = ''ClusterIP''
   \<and> validateAgent exampleAgent = Inr ()
   \<and> hpas scaledDownWorld (''ns'', ''a-hpa'') = Some staleHPA
   \<and> ingresses scaledDownWorld (''ns'', ''a-ingress'') = Some staleIngress
   \<and> fst (Reconcile scaledDownWorld (''ns'', ''a''))
       = Inr \<lparr>Requeue = False, RequeueAfter = 300\<rparr>
   \<and> hpas (snd (Reconcile scaledDownWorld (''ns'', ''a''))) (''ns'', ''a-hpa'') = None
   \<and> ingresses (snd (Reconcile scaledDownWorld (''ns'', ''a''))) (''ns'', ''a-ingress'') = None
   \<and> fst (Reconcile (withFaults lookupsRefused scaledDownWorld) (''ns'', ''a''))
       = Inr \<lparr>Requeue = False, RequeueAfter = 300\<rparr>
   \<and> map callShape (newCalls (withFaults lookupsRefused scaledDownWorld)
         (snd (Reconcile (withFaults lookupsRefused scaledDownWorld) (''ns'', ''a''))))
       = [(VGet, KAgent), (VUpdate, KAgent), (VStatusUpdate, KAgent), (VGet, KSecret),
          (VGet, KConfigMap), (VCreate, KConfigMap), (VGet, KDeployment),
          (VCreate, KDeployment), (VGet, KService), (VCreate, KService), (VGet, KHPA),
          (VGet, KIngress), (VGet, KDeployment), (VStatusUpdate, KAgent)]
   \<and> hpas (snd (Reconcile (withFaults lookupsRefused scaledDownWorld) (''ns'', ''a'')))
        (''ns'', ''a-hpa'') = Some staleHPA
   \<and> ingresses (snd (Reconcile (withFaults lookupsRefused scaledDownWorld) (''ns'', ''a'')))
        (''ns'', ''a-ingress'') = Some staleIngress
   \<and> validateAgent (withReplicas None exampleAgent) = Inr ()
   \<and> Replicas (Spec (withReplicas None exampleAgent)) = None
   \<and> fst (Reconcile (exampleWorld (withReplicas None exampleAgent)) (''ns'', ''a''))
       = Inr \<lparr>Requeue = False, RequeueAfter = 300\<rparr>
   \<and> map_option (deploymentReplicas \<circ> deploymentSpec)
        (deployments (snd (Reconcile (exampleWorld (withReplicas None exampleAgent)) (''ns'', ''a'')))
           (''ns'', ''a''))
       = Some (Some 1)
   \<and> map_option (MinReplicas \<circ> hpaSpec)
        (hpas (snd (Reconcile (exampleWorld (withReplicas None exampleAgent)) (''ns'', ''a'')))
           (''ns'', ''a-hpa''))
       = Some (Some 1)
   \<and> map_option (MaxReplicas \<circ> hpaSpec)
        (hpas (snd (Reconcile (exampleWorld (withReplicas None exampleAgent)) (''ns'', ''a'')))
           (''ns'', ''a-hpa''))
       = Some 10"
proof -
  note defs = Reconcile_def exampleWorld_def withReplicas_def
     exampleAgent_def exampleSecret_def newCalls_def
     client_Get_def client_Create_def client_Update_def client_Delete_def client_Update_Agent_def
     client_Status_Update_def record_call_def next_fault_def key_of_def
     ContainsFinalizer_def AddFinalizer_def finalizerName_def reconcileActive_def initializeStatus_def
     reconcileChildren_def or_failed_def validateConfiguration_def validProviders_def
     validateSecretRef_def reconcileConfigMap_def reconcileDeployment_def reconcileService_def
     reconcileHPA_def reconcileIngress_def updateAgentStatus_def SetControllerReference_def
     buildConfigMap_def buildDeployment_def buildService_def buildHPA_def buildIngress_def
     statusFromDeployment_def Minute_def
     Let_def notFound_def controllerRef_def agentLabels_def AgentPhasePending_def AgentPhaseRunning_def
     word_sless_alt
  have e: "Replicas (Spec exampleAgent) = Some 1 \<and> ServiceType (Spec exampleAgent) = ''ClusterIP''"
    by (simp add: exampleAgent_def)
  have v: "validateAgent exampleAgent = Inr ()"
    by (simp add: validateAgent_def validateAgent_allErrs_def exampleAgent_def
          validProviders_def validServiceTypes_def word_sless_alt)
  have s: "hpas scaledDownWorld (''ns'', ''a-hpa'') = Some staleHPA
           \<and> ingresses scaledDownWorld (''ns'', ''a-ingress'') = Some staleIngress"
    by (simp add: scaledDownWorld_def)
  have "case Reconcile scaledDownWorld (''ns'', ''a'') of
          (res, w') \<Rightarrow> res = Inr \<lparr>Requeue = False, RequeueAfter = 300\<rparr>
                     \<and> hpas w' (''ns'', ''a-hpa'') = None
                     \<and> ingresses w' (''ns'', ''a-ingress'') = None"
    by (simp add: defs scaledDownWorld_def staleHPA_def staleIngress_def ownedHPA_def
          ownedIngress_def)
  then have a: "fst (Reconcile scaledDownWorld (''ns'', ''a''))
              = Inr \<lparr>Requeue = False, RequeueAfter = 300\<rparr>
      \<and> hpas (snd (Reconcile scaledDownWorld (''ns'', ''a''))) (''ns'', ''a-hpa'') = None
      \<and> ingresses (snd (Reconcile scaledDownWorld (''ns'', ''a''))) (''ns'', ''a-ingress'') = None"
    by (simp add: case_prod_unfold)
  let ?r = "Reconcile (withFaults lookupsRefused scaledDownWorld) (''ns'', ''a'')"
  have "case ?r of
          (res, w') \<Rightarrow> res = Inr \<lparr>Requeue = False, RequeueAfter = 300\<rparr>
            \<and> map callShape (newCalls (withFaults lookupsRefused scaledDownWorld) w')
                = [(VGet, KAgent), (VUpdate, KAgent), (VStatusUpdate, KAgent), (VGet, KSecret),
                   (VGet, KConfigMap), (VCreate, KConfigMap), (VGet, KDeployment),
                   (VCreate, KDeployment), (VGet, KService), (VCreate, KService), (VGet, KHPA),
                   (VGet, KIngress), (VGet, KDeployment), (VStatusUpdate, KAgent)]
            \<and> hpas w' (''ns'', ''a-hpa'') = Some staleHPA
            \<and> ingresses w' (''ns'', ''a-ingress'') = Some staleIngress"
    by (simp add: defs scaledDownWorld_def withFaults_def lookupsRefused_def)
  then have b: "fst ?r = Inr \<lparr>Requeue = False, RequeueAfter = 300\<rparr>
      \<and> map callShape (newCalls (withFaults lookupsRefused scaledDownWorld) (snd ?r))
          = [(VGet, KAgent), (VUpdate, KAgent), (VStatusUpdate, KAgent), (VGet, KSecret),
             (VGet, KConfigMap), (VCreate, KConfigMap), (VGet, KDeployment),
             (VCreate, KDeployment), (VGet, KService), (VCreate, KService), (VGet, KHPA),
             (VGet, KIngress), (VGet, KDeployment), (VStatusUpdate, KAgent)]
      \<and> hpas (snd ?r) (''ns'', ''a-hpa'') = Some staleHPA
      \<and> ingresses (snd ?r) (''ns'', ''a-ingress'') = Some staleIngress"
    by (simp add: case_prod_unfold)
  have n0: "validateAgent (withReplicas None exampleAgent) = Inr ()
            \<and> Replicas (Spec (withReplicas None exampleAgent)) = None"
    by (simp add: validateAgent_def validateAgent_allErrs_def exampleAgent_def withReplicas_def
          validProviders_def validServiceTypes_def)
  let ?n = "Reconcile (exampleWorld (withReplicas None exampleAgent)) (''ns'', ''a'')"
  have "case ?n of
          (res, w') \<Rightarrow> res = Inr \<lparr>Requeue = False, RequeueAfter = 300\<rparr>
            \<and> map_option (deploymentReplicas \<circ> deploymentSpec) (deployments w' (''ns'', ''a''))
                = Some (Some 1)
            \<and> map_option (MinReplicas \<circ> hpaSpec) (hpas w' (''ns'', ''a-hpa'')) = Some (Some 1)
            \<and> map_option (MaxReplicas \<circ> hpaSpec) (hpas w' (''ns'', ''a-hpa'')) = Some 10"
    by (simp add: defs)
  then have n: "fst ?n = Inr \<lparr>Requeue = False, RequeueAfter = 300\<rparr>
      \<and> map_option (deploymentReplicas \<circ> deploymentSpec) (deployments (snd ?n) (''ns'', ''a''))
          = Some (Some 1)
      \<and> map_option (MinReplicas \<circ> hpaSpec) (hpas (snd ?n) (''ns'', ''a-hpa'')) = Some (Some 1)
      \<and> map_option (MaxReplicas \<circ> hpaSpec) (hpas (snd ?n) (''ns'', ''a-hpa'')) = Some 10"
    by (simp add: case_prod_unfold)
  show ?thesis
    using e v s a b n0 n by blast
qed

end
